theory Spec2Isabelle
  imports Main "HOL-Library.AList"
begin

section \<open>JavaScript values used by bot-manager.js\<close>

text \<open>
  Strings are byte lists (UTF-8); the emoji of the source's literals are written as their
  bytes.  Lower-casing and white space are modelled for ASCII only.
\<close>

type_synonym botId = string
type_synonym token = string
type_synonym inst = nat

datatype js_error = JsError (message: string)

text \<open>A JavaScript number as the code meets it: an integer or \<open>NaN\<close> (from \<open>parseInt\<close>).
  The code's numbers are doubles: the arithmetic and the printed form below are those of
  the code as long as every value stays within \<open>-2^53 .. 2^53\<close>, and the statements that
  depend on either carry that bound (\<open>exact_page\<close>).  Beyond it the code rounds, prints
  the shortest digits that round back and reaches \<open>Infinity\<close>; none of that is modelled.\<close>

datatype jsnum = Num int | NaN

fun js_times :: "jsnum \<Rightarrow> int \<Rightarrow> jsnum" where
  "js_times (Num a) b = Num (a * b)"
| "js_times NaN b = NaN"

fun js_plus :: "jsnum \<Rightarrow> int \<Rightarrow> jsnum" where
  "js_plus (Num a) b = Num (a + b)"
| "js_plus NaN b = NaN"

fun js_greater :: "jsnum \<Rightarrow> int \<Rightarrow> bool" where
  "js_greater (Num a) b = (a > b)"
| "js_greater NaN b = False"

fun js_less :: "jsnum \<Rightarrow> int \<Rightarrow> bool" where
  "js_less (Num a) b = (a < b)"
| "js_less NaN b = False"

fun Math_min :: "jsnum \<Rightarrow> int \<Rightarrow> jsnum" where
  "Math_min (Num a) b = Num (min a b)"
| "Math_min NaN b = NaN"

fun ToIntegerOrInfinity :: "jsnum \<Rightarrow> int" where
  "ToIntegerOrInfinity (Num a) = a"
| "ToIntegerOrInfinity NaN = 0"

text \<open>\<open>Array.prototype.slice(start, end)\<close>: a negative index counts from the end, and
  both indices are cut to \<open>0 .. length\<close>.\<close>

definition relative_index :: "int \<Rightarrow> int \<Rightarrow> int" where
  "relative_index len r = (if r < 0 then max (len + r) 0 else min r len)"

definition js_slice :: "'a list \<Rightarrow> jsnum \<Rightarrow> jsnum \<Rightarrow> 'a list" where
  "js_slice xs start fin =
     (let len = int (length xs);
          k = relative_index len (ToIntegerOrInfinity start);
          final = relative_index len (ToIntegerOrInfinity fin)
      in take (nat (final - k)) (drop (nat k) xs))"

text \<open>\<open>slice(i, i + n)\<close> with a natural number \<open>i\<close>, as the row loop uses it.\<close>

definition slice_nat :: "'a list \<Rightarrow> nat \<Rightarrow> nat \<Rightarrow> 'a list" where
  "slice_nat xs i j = js_slice xs (Num (int i)) (Num (int j))"

subsection \<open>Strings\<close>

definition digit_char :: "nat \<Rightarrow> char" where
  "digit_char d = ''0123456789'' ! d"

function string_of_nat :: "nat \<Rightarrow> string" where
  "string_of_nat n =
     (if n < 10 then [digit_char n] else string_of_nat (n div 10) @ [digit_char (n mod 10)])"
  by pat_completeness auto
termination
  by (relation "measure (\<lambda>n. n)") auto

declare string_of_nat.simps [simp del]

definition string_of_int :: "int \<Rightarrow> string" where
  "string_of_int i = (if i < 0 then CHR ''-'' # string_of_nat (nat (- i)) else string_of_nat (nat i))"

fun string_of_jsnum :: "jsnum \<Rightarrow> string" where
  "string_of_jsnum (Num i) = string_of_int i"
| "string_of_jsnum NaN = ''NaN''"

fun startsWith :: "string \<Rightarrow> string \<Rightarrow> bool" where
  "startsWith s [] = True"
| "startsWith [] (p # ps) = False"
| "startsWith (c # cs) (p # ps) = (c = p \<and> startsWith cs ps)"

fun js_includes :: "string \<Rightarrow> string \<Rightarrow> bool" where
  "js_includes [] sub = (sub = [])"
| "js_includes (c # cs) sub = (startsWith (c # cs) sub \<or> js_includes cs sub)"

definition lower_char :: "char \<Rightarrow> char" where
  "lower_char c =
     (case map_of (zip ''ABCDEFGHIJKLMNOPQRSTUVWXYZ'' ''abcdefghijklmnopqrstuvwxyz'') c of
        None \<Rightarrow> c
      | Some l \<Rightarrow> l)"

definition toLowerCase :: "string \<Rightarrow> string" where
  "toLowerCase s = map lower_char s"

fun js_split :: "char \<Rightarrow> string \<Rightarrow> string list" where
  "js_split sep [] = [[]]"
| "js_split sep (c # cs) =
     (if c = sep then [] # js_split sep cs
      else (case js_split sep cs of [] \<Rightarrow> [[c]] | w # ws \<Rightarrow> (c # w) # ws))"

fun js_join :: "string \<Rightarrow> string list \<Rightarrow> string" where
  "js_join sep [] = []"
| "js_join sep [x] = x"
| "js_join sep (x # y # ys) = x @ sep @ js_join sep (y # ys)"

text \<open>\<open>parseInt(s)\<close> with no radix: leading white space, a sign, then \<open>0x\<close> and
  hexadecimal digits or decimal digits, up to the first other character; \<open>NaN\<close> when no
  digit was read, and for \<open>undefined\<close>.\<close>

text \<open>The white space and line terminators that \<open>parseInt\<close> skips, in UTF-8: TAB, LF, VT,
  FF, CR, SP, U+00A0, U+1680, U+2000 to U+200A, U+2028, U+2029, U+202F, U+205F, U+3000 and
  U+FEFF.\<close>

definition white_space :: "string list" where
  "white_space =
     [[CHR 0x09], [CHR 0x0A], [CHR 0x0B], [CHR 0x0C], [CHR 0x0D], [CHR 0x20],
      [CHR 0xC2, CHR 0xA0], [CHR 0xE1, CHR 0x9A, CHR 0x80],
      [CHR 0xE2, CHR 0x80, CHR 0x80], [CHR 0xE2, CHR 0x80, CHR 0x81], [CHR 0xE2, CHR 0x80, CHR 0x82],
      [CHR 0xE2, CHR 0x80, CHR 0x83], [CHR 0xE2, CHR 0x80, CHR 0x84], [CHR 0xE2, CHR 0x80, CHR 0x85],
      [CHR 0xE2, CHR 0x80, CHR 0x86], [CHR 0xE2, CHR 0x80, CHR 0x87], [CHR 0xE2, CHR 0x80, CHR 0x88],
      [CHR 0xE2, CHR 0x80, CHR 0x89], [CHR 0xE2, CHR 0x80, CHR 0x8A], [CHR 0xE2, CHR 0x80, CHR 0xA8],
      [CHR 0xE2, CHR 0x80, CHR 0xA9], [CHR 0xE2, CHR 0x80, CHR 0xAF], [CHR 0xE2, CHR 0x81, CHR 0x9F],
      [CHR 0xE3, CHR 0x80, CHR 0x80], [CHR 0xEF, CHR 0xBB, CHR 0xBF]]"

text \<open>The number of bytes of the white space character at the head of a string; 0 when
  there is none.\<close>

definition white_prefix :: "string \<Rightarrow> nat" where
  "white_prefix s = (case find (startsWith s) white_space of None \<Rightarrow> 0 | Some w \<Rightarrow> length w)"

function skip_white :: "string \<Rightarrow> string" where
  "skip_white s = (if 0 < white_prefix s then skip_white (drop (white_prefix s) s) else s)"
  by pat_completeness auto
termination
proof (relation "measure length")
  show "wf (measure length)" by simp
next
  fix s :: string
  assume pos: "0 < white_prefix s"
  have "white_prefix [] = 0"
    by (simp add: white_prefix_def white_space_def)
  with pos have "s \<noteq> []" by auto
  with pos show "(drop (white_prefix s) s, s) \<in> measure length" by simp
qed

declare skip_white.simps [simp del]

definition dec_digit :: "char \<Rightarrow> nat option" where
  "dec_digit c =
     (let n = (of_char c :: nat) in if 48 \<le> n \<and> n \<le> 57 then Some (n - 48) else None)"

definition hex_digit :: "char \<Rightarrow> nat option" where
  "hex_digit c =
     (let n = (of_char c :: nat) in
      if 48 \<le> n \<and> n \<le> 57 then Some (n - 48)
      else if 97 \<le> n \<and> n \<le> 102 then Some (n - 87)
      else if 65 \<le> n \<and> n \<le> 70 then Some (n - 55)
      else None)"

fun read_digits :: "(char \<Rightarrow> nat option) \<Rightarrow> nat \<Rightarrow> nat option \<Rightarrow> string \<Rightarrow> nat option" where
  "read_digits dig radix acc [] = acc"
| "read_digits dig radix acc (c # cs) =
     (case dig c of
        None \<Rightarrow> acc
      | Some d \<Rightarrow> read_digits dig radix (Some ((case acc of None \<Rightarrow> 0 | Some a \<Rightarrow> a) * radix + d)) cs)"

definition read_unsigned :: "string \<Rightarrow> nat option" where
  "read_unsigned s =
     (if startsWith s ''0x'' \<or> startsWith s ''0X'' then read_digits hex_digit 16 None (drop 2 s)
      else read_digits dec_digit 10 None s)"

definition parseInt :: "string option \<Rightarrow> jsnum" where
  "parseInt arg =
     (case arg of
        None \<Rightarrow> NaN
      | Some s \<Rightarrow>
          (let t = skip_white s;
               negative = startsWith t ''-'';
               u = (if negative \<or> startsWith t ''+'' then drop 1 t else t)
           in case read_unsigned u of
                None \<Rightarrow> NaN
              | Some n \<Rightarrow> Num (if negative then - int n else int n)))"

definition newline :: string where "newline = [CHR 0x0A]"
definition emoji_folder :: string where "emoji_folder = [CHR 0xF0, CHR 0x9F, CHR 0x93, CHR 0x81]"
definition emoji_open_folder :: string where "emoji_open_folder = [CHR 0xF0, CHR 0x9F, CHR 0x93, CHR 0x82]"
definition emoji_house :: string where "emoji_house = [CHR 0xF0, CHR 0x9F, CHR 0x8F, CHR 0xA0]"
definition emoji_left :: string where "emoji_left = [CHR 0xE2, CHR 0xAC, CHR 0x85, CHR 0xEF, CHR 0xB8, CHR 0x8F]"
definition emoji_right :: string where "emoji_right = [CHR 0xE2, CHR 0x9E, CHR 0xA1, CHR 0xEF, CHR 0xB8, CHR 0x8F]"
definition emoji_cross :: string where "emoji_cross = [CHR 0xE2, CHR 0x9D, CHR 0x8C]"
definition emoji_mailbox :: string where "emoji_mailbox = [CHR 0xF0, CHR 0x9F, CHR 0x93, CHR 0xAD]"
definition emoji_check :: string where "emoji_check = [CHR 0xE2, CHR 0x9C, CHR 0x85]"
definition emoji_tick :: string where "emoji_tick = [CHR 0xE2, CHR 0x9C, CHR 0x93]"
definition emoji_warning :: string where "emoji_warning = [CHR 0xE2, CHR 0x9A, CHR 0xA0, CHR 0xEF, CHR 0xB8, CHR 0x8F]"
definition emoji_no_entry :: string where "emoji_no_entry = [CHR 0xE2, CHR 0x9B, CHR 0x94]"
definition emoji_envelope :: string where "emoji_envelope = [CHR 0xF0, CHR 0x9F, CHR 0x93, CHR 0xA8]"

section \<open>Data model\<close>

text \<open>The content tree (\<open>metadata\<close>): each folder may have the object \<open>subfolders\<close> of
  named children, file references and a channel of its own.  An absent \<open>files\<close> property
  behaves as the empty list everywhere in the source.\<close>

datatype file_ref = FileRef (messageId: int)

datatype node =
  Node (subfolders: "(string \<times> node) list option") (files: "file_ref list")
    (folder_channelId: "string option")

record button =
  button_text :: string
  callback_data :: string

type_synonym keyboard = "button list list"

text \<open>Inbound updates.  \<open>msg.from\<close>, \<open>msg.chat\<close>, \<open>query.message\<close> and the texts are
  optional in the platform's updates; reading \<open>.id\<close> of a missing one is a TypeError.\<close>

record message =
  msg_from :: "int option"
  msg_chat :: "int option"
  msg_text :: "string option"

record callback_query =
  query_id :: string
  query_from :: "int option"
  query_message_chat :: "int option"
  query_data :: "string option"

datatype error_entry = ErrorEntry (err_timestamp: nat) (err_error: string) (err_type: string)

record botInfo =
  bi_instance :: inst
  bi_botId :: botId
  bi_token :: token
  bi_channelId :: string
  bi_metadata :: node
  bi_status :: string
  bi_ownerId :: "int option"
  bi_started :: nat
  bi_errors :: "error_entry list"
  bi_lastHealthCheck :: nat

text \<open>What the four handlers of \<open>setupBotHandlers\<close> close over: the \<open>botInfo\<close> object
  (by reference) and the values destructured from it when the handlers were set up.\<close>

record closure =
  c_botInfo :: inst
  c_bot :: inst
  c_botId :: botId
  c_channelId :: string
  c_metadata :: node
  c_status :: string
  c_ownerId :: "int option"
  c_adminUserId :: int

text \<open>A record of the persistent store, as \<open>storage.getBotById\<close> returns it.\<close>

record botData =
  bd_id :: botId
  bd_botToken :: token
  bd_channelId :: string
  bd_metadata :: node
  bd_status :: string
  bd_ownerId :: "int option"

text \<open>Every call that leaves the manager, with its arguments.\<close>

datatype effect =
    NewTelegramBot inst token
  | GetMe inst
  | SendMessage inst int string "keyboard option"
  | ForwardMessage inst int "string option" int
  | AnswerCallbackQuery inst string "string option"
  | StopPolling inst
  | SendAlert string string
  | RegisterBotOwner botId int
  | GetBotById botId
  | GetAllBots
  | SetInterval nat
  | ClearInterval nat
  | ConsoleError string "js_error option"
  | ConsoleLog string

text \<open>The collaborators that are not part of bot-manager.js (security.js, config.js,
  storage.js, admin-bot.js, the platform library) are parameters: \<open>faults n\<close> says whether
  the \<open>n\<close>-th outbound call throws, the sanitizers and the configuration getters are
  functions that may throw, \<open>getBotById n\<close> and \<open>getAllBots n\<close> are the store's content at
  the \<open>n\<close>-th call, \<open>localeSort\<close> is the sort by \<open>localeCompare\<close> with the numeric option, and \<open>clock\<close> is
  the time.  \<open>None\<close> is JavaScript's \<open>null\<close>.\<close>

record env =
  faults :: "nat \<Rightarrow> string option"
  clock :: "nat \<Rightarrow> nat"
  sanitizeTelegramMessage :: "message \<Rightarrow> js_error + message option"
  sanitizeInput :: "string option \<Rightarrow> js_error + string option"
  getAdminUserId :: "js_error + int"
  getWelcomeMessage :: "js_error + string"
  getInvalidInputMessage :: "js_error + string"
  getBotById :: "nat \<Rightarrow> botId \<Rightarrow> botData option"
  getAllBots :: "nat \<Rightarrow> botData list"
  localeSort :: "string list \<Rightarrow> string list"

text \<open>The BotManager object and its surroundings.  \<open>bots\<close> and \<open>botTokenMap\<close> are the two
  Maps, in insertion order; \<open>bots\<close> holds references to the \<open>botInfo\<close> objects, which live
  in the store \<open>botInfos\<close> (an object is allocated at the number of its TelegramBot
  instance), since the handlers hold the same objects.  \<open>handlers\<close> are the listeners
  attached to an instance, \<open>active_timers\<close> the intervals that still fire, \<open>trace\<close>
  the outbound calls so far with whether each returned normally.\<close>

record sys =
  bots :: "(botId \<times> inst) list"
  botTokenMap :: "(token \<times> botId) list"
  recoveryInterval :: "nat option"
  botInfos :: "inst \<Rightarrow> botInfo"
  handlers :: "inst \<Rightarrow> closure option"
  next_inst :: nat
  next_timer :: nat
  active_timers :: "nat list"
  tick :: nat
  trace :: "(effect \<times> bool) list"

section \<open>Effects: exceptions and state\<close>

text \<open>An operation takes the state and returns the new one together with its value or
  the exception it threw.  Each asynchronous function runs to completion here: no other
  handler is interleaved at an \<open>await\<close>.\<close>

type_synonym 'a io = "sys \<Rightarrow> (js_error + 'a) \<times> sys"

definition ret :: "'a \<Rightarrow> 'a io" where
  "ret x s = (Inr x, s)"

definition throw :: "js_error \<Rightarrow> 'a io" where
  "throw e s = (Inl e, s)"

definition andThen :: "'a io \<Rightarrow> ('a \<Rightarrow> 'b io) \<Rightarrow> 'b io" where
  "andThen m f s = (case m s of (Inl e, s') \<Rightarrow> (Inl e, s') | (Inr x, s') \<Rightarrow> f x s')"

definition tryCatch :: "'a io \<Rightarrow> (js_error \<Rightarrow> 'a io) \<Rightarrow> 'a io" where
  "tryCatch m h s = (case m s of (Inl e, s') \<Rightarrow> h e s' | (Inr x, s') \<Rightarrow> (Inr x, s'))"

definition gets :: "(sys \<Rightarrow> 'a) \<Rightarrow> 'a io" where
  "gets f s = (Inr (f s), s)"

definition modify :: "(sys \<Rightarrow> sys) \<Rightarrow> unit io" where
  "modify f s = (Inr (), f s)"

definition pure_call :: "js_error + 'a \<Rightarrow> 'a io" where
  "pure_call r s = (r, s)"

definition ext_call :: "env \<Rightarrow> effect \<Rightarrow> unit io" where
  "ext_call env eff s =
     (case faults env (tick s) of
        None \<Rightarrow> (Inr (), s\<lparr>tick := Suc (tick s), trace := trace s @ [(eff, True)]\<rparr>)
      | Some m \<Rightarrow> (Inl (JsError m), s\<lparr>tick := Suc (tick s), trace := trace s @ [(eff, False)]\<rparr>))"

definition console_error :: "string \<Rightarrow> js_error option \<Rightarrow> unit io" where
  "console_error txt e = modify (\<lambda>s. s\<lparr>trace := trace s @ [(ConsoleError txt e, True)]\<rparr>)"

definition console_log :: "string \<Rightarrow> unit io" where
  "console_log txt = modify (\<lambda>s. s\<lparr>trace := trace s @ [(ConsoleLog txt, True)]\<rparr>)"

text \<open>\<open>obj.id\<close>, with the TypeError of the runtime for a missing \<open>obj\<close>.\<close>

definition TypeError_id :: js_error where
  "TypeError_id = JsError ''Cannot read properties of undefined (reading 'id')''"

definition property_id :: "int option \<Rightarrow> int io" where
  "property_id obj =
     (case obj of
        None \<Rightarrow> throw TypeError_id
      | Some i \<Rightarrow> ret i)"

definition deref :: "inst \<Rightarrow> botInfo io" where
  "deref r = gets (\<lambda>s. botInfos s r)"

definition update_botInfo :: "inst \<Rightarrow> (botInfo \<Rightarrow> botInfo) \<Rightarrow> unit io" where
  "update_botInfo r f = modify (\<lambda>s. s\<lparr>botInfos := (botInfos s)(r := f (botInfos s r))\<rparr>)"

definition now :: "env \<Rightarrow> nat io" where
  "now env = gets (\<lambda>s. clock env (tick s))"

definition sendMessage :: "env \<Rightarrow> inst \<Rightarrow> int \<Rightarrow> string \<Rightarrow> keyboard option \<Rightarrow> unit io" where
  "sendMessage env tbot chatId txt markup = ext_call env (SendMessage tbot chatId txt markup)"

definition forwardMessage :: "env \<Rightarrow> inst \<Rightarrow> int \<Rightarrow> string option \<Rightarrow> int \<Rightarrow> unit io" where
  "forwardMessage env tbot chatId fromChat mid = ext_call env (ForwardMessage tbot chatId fromChat mid)"

definition answerCallbackQuery :: "env \<Rightarrow> inst \<Rightarrow> string \<Rightarrow> string option \<Rightarrow> unit io" where
  "answerCallbackQuery env tbot qid txt = ext_call env (AnswerCallbackQuery tbot qid txt)"

definition getMe :: "env \<Rightarrow> inst \<Rightarrow> unit io" where
  "getMe env tbot = ext_call env (GetMe tbot)"

definition stopPolling :: "env \<Rightarrow> inst \<Rightarrow> unit io" where
  "stopPolling env tbot = ext_call env (StopPolling tbot)"

definition sendAlert :: "env \<Rightarrow> string \<Rightarrow> string \<Rightarrow> unit io" where
  "sendAlert env category txt = ext_call env (SendAlert category txt)"

text \<open>\<open>new TelegramBot(token, {polling: {autoStart: true, ...}})\<close>: the instance polls from
  its construction on.\<close>

definition new_TelegramBot :: "env \<Rightarrow> token \<Rightarrow> inst io" where
  "new_TelegramBot env token =
     andThen (gets next_inst) (\<lambda>i.
     andThen (ext_call env (NewTelegramBot i token)) (\<lambda>_.
     andThen (modify (\<lambda>s. s\<lparr>next_inst := Suc i\<rparr>)) (\<lambda>_.
     ret i)))"

section \<open>The texts of the log lines, alerts and payloads\<close>

definition text_invalid_token :: "js_error \<Rightarrow> string" where
  "text_invalid_token error = ''Bot token invalid or revoked: '' @ message error"

definition text_add_error :: "botId \<Rightarrow> string" where
  "text_add_error botId = emoji_cross @ '' Error adding bot '' @ botId @ '':''"

definition text_add_failed :: "botId \<Rightarrow> js_error \<Rightarrow> string" where
  "text_add_failed botId error = ''Failed to initialize bot '' @ botId @ '': '' @ message error"

definition text_initialized :: "botId \<Rightarrow> string \<Rightarrow> string" where
  "text_initialized botId status =
     emoji_tick @ '' Bot '' @ botId @ '' initialized (status: '' @ status @ '')''"

definition text_stop_error :: "botId \<Rightarrow> string" where
  "text_stop_error botId = ''Error stopping bot '' @ botId @ '':''"

definition text_stopped :: "botId \<Rightarrow> string" where
  "text_stopped botId = emoji_tick @ '' Bot '' @ botId @ '' stopped''"

definition text_polling_error :: "botId \<Rightarrow> string" where
  "text_polling_error botId = ''Polling error for bot '' @ botId @ '':''"

definition text_too_many :: "botId \<Rightarrow> string" where
  "text_too_many botId = ''Bot '' @ botId @ '' has too many errors, stopping...''"

definition text_stopped_repeated :: "botId \<Rightarrow> string" where
  "text_stopped_repeated botId = ''Bot '' @ botId @ '' stopped due to repeated errors''"

definition text_handler_error :: "string \<Rightarrow> botId \<Rightarrow> string" where
  "text_handler_error what botId = ''Error handling '' @ what @ '' for bot '' @ botId @ '':''"

definition blocked_text :: "string \<Rightarrow> int \<Rightarrow> botId \<Rightarrow> string" where
  "blocked_text what userId botId =
     ''Malicious '' @ what @ '' blocked from user '' @ string_of_int userId @ '' in bot '' @ botId"

definition text_owner_registered :: "botId \<Rightarrow> int \<Rightarrow> string" where
  "text_owner_registered botId userId =
     ''Bot '' @ botId @ '' owner registered'' @ newline @ ''User ID: '' @ string_of_int userId @
     newline @ ''Bot needs approval''"

definition text_health_failed :: "botId \<Rightarrow> string" where
  "text_health_failed botId = ''Bot '' @ botId @ '' health check failed:''"

definition text_attempt_restart :: "botId \<Rightarrow> string" where
  "text_attempt_restart botId = ''Attempting to restart bot '' @ botId @ ''...''"

definition text_restarted :: "botId \<Rightarrow> string" where
  "text_restarted botId = ''Bot '' @ botId @ '' was automatically restarted after health check failure''"

definition text_restart_error :: "botId \<Rightarrow> string" where
  "text_restart_error botId = ''Failed to restart bot '' @ botId @ '':''"

definition text_restart_failed :: "botId \<Rightarrow> js_error \<Rightarrow> string" where
  "text_restart_failed botId error = ''Failed to auto-restart bot '' @ botId @ '': '' @ message error"

definition text_sending_files :: "nat \<Rightarrow> string" where
  "text_sending_files n = emoji_folder @ '' Sending '' @ string_of_nat n @ '' file(s) from this folder...''"

definition page_payload :: "jsnum \<Rightarrow> string list \<Rightarrow> string" where
  "page_payload page currentPath = ''page|'' @ string_of_jsnum page @ ''|'' @ js_join ''/'' currentPath"

definition folder_payload :: "string list \<Rightarrow> string" where
  "folder_payload path = ''folder|'' @ js_join ''/'' path"

definition page_info :: "jsnum \<Rightarrow> int \<Rightarrow> string" where
  "page_info page totalPages =
     '' (Page '' @ string_of_jsnum (js_plus page 1) @ ''/'' @ string_of_int totalPages @ '')''"

section \<open>The navigation renderer: \<open>sendFolderMenu\<close>\<close>

text \<open>\<open>currentFolder.subfolders[folder]\<close> finds, besides the children, what a plain object
  inherits from \<open>Object.prototype\<close>: a function (an object for \<open>__proto__\<close>), which is
  truthy and has no \<open>subfolders\<close>, \<open>files\<close> or \<open>channelId\<close>, so the loop goes on with it
  as with a folder that has none of the three.\<close>

definition Object_prototype_names :: "string list" where
  "Object_prototype_names =
     [''constructor'', ''__defineGetter__'', ''__defineSetter__'', ''hasOwnProperty'',
      ''__lookupGetter__'', ''__lookupSetter__'', ''isPrototypeOf'', ''propertyIsEnumerable'',
      ''toString'', ''valueOf'', ''__proto__'', ''toLocaleString'']"

definition inherited_value :: node where
  "inherited_value = Node None [] None"

fun walk :: "node \<Rightarrow> string list \<Rightarrow> node option" where
  "walk currentFolder [] = Some currentFolder"
| "walk currentFolder (folder # rest) =
     (case subfolders currentFolder of
        None \<Rightarrow> None
      | Some children \<Rightarrow>
          (case map_of children folder of
             Some child \<Rightarrow> walk child rest
           | None \<Rightarrow>
               if folder \<in> set Object_prototype_names then walk inherited_value rest else None))"

text \<open>\<open>Object.keys(currentFolder.subfolders || {})\<close>\<close>

definition subfolder_names :: "node \<Rightarrow> string list" where
  "subfolder_names currentFolder =
     (case subfolders currentFolder of None \<Rightarrow> [] | Some children \<Rightarrow> map fst children)"

fun forward_files :: "env \<Rightarrow> inst \<Rightarrow> int \<Rightarrow> string option \<Rightarrow> file_ref list \<Rightarrow> unit io" where
  "forward_files env tbot chatId fromChat [] = ret ()"
| "forward_files env tbot chatId fromChat (file # rest) =
     andThen (tryCatch (forwardMessage env tbot chatId fromChat (messageId file))
                (\<lambda>error. console_error ''Error forwarding file:'' (Some error))) (\<lambda>_.
     forward_files env tbot chatId fromChat rest)"

text \<open>\<open>currentFolder.channelId || metadata.channelId\<close>\<close>

definition channel_or :: "node \<Rightarrow> node \<Rightarrow> string option" where
  "channel_or currentFolder metadata =
     (case folder_channelId currentFolder of
        None \<Rightarrow> folder_channelId metadata
      | Some ch \<Rightarrow> if ch = [] then folder_channelId metadata else Some ch)"

definition folder_button :: "string list \<Rightarrow> string \<Rightarrow> button" where
  "folder_button currentPath folder =
     \<lparr>button_text = emoji_folder @ '' '' @ folder,
      callback_data = folder_payload (currentPath @ [folder])\<rparr>"

definition main_menu_button :: button where
  "main_menu_button = \<lparr>button_text = emoji_house @ '' Main Menu'', callback_data = ''main|''\<rparr>"

function button_rows :: "string list \<Rightarrow> string list \<Rightarrow> nat \<Rightarrow> keyboard" where
  "button_rows currentPath pageSubfolders i =
     (if i < length pageSubfolders
      then map (folder_button currentPath) (slice_nat pageSubfolders i (i + 10))
             # button_rows currentPath pageSubfolders (i + 10)
      else [])"
  by pat_completeness auto
termination
  by (relation "measure (\<lambda>(currentPath, pageSubfolders, i). length pageSubfolders - i)") auto

declare button_rows.simps [simp del]

definition nav_buttons :: "string list \<Rightarrow> jsnum \<Rightarrow> int \<Rightarrow> button list" where
  "nav_buttons currentPath page totalPages =
     (if js_greater page 0
      then [\<lparr>button_text = emoji_left @ '' Back'',
             callback_data = page_payload (js_plus page (- 1)) currentPath\<rparr>]
      else []) @
     (if js_less page (totalPages - 1)
      then [\<lparr>button_text = emoji_right @ '' Next'',
             callback_data = page_payload (js_plus page 1) currentPath\<rparr>]
      else []) @
     (if length currentPath > 0
      then [\<lparr>button_text = emoji_house @ '' Main'', callback_data = ''main|''\<rparr>]
      else [])"

definition ITEMS_PER_PAGE :: int where "ITEMS_PER_PAGE = 30"

text \<open>\<open>Math.ceil(subfolders.length / ITEMS_PER_PAGE)\<close>\<close>

definition total_pages :: "nat \<Rightarrow> int" where
  "total_pages n = (int n + (ITEMS_PER_PAGE - 1)) div ITEMS_PER_PAGE"

definition page_slice :: "string list \<Rightarrow> jsnum \<Rightarrow> string list" where
  "page_slice subs page =
     (let startIdx = js_times page ITEMS_PER_PAGE;
          endIdx = Math_min (js_plus startIdx ITEMS_PER_PAGE) (int (length subs))
      in js_slice subs startIdx endIdx)"

definition menu_keyboard :: "string list \<Rightarrow> string list \<Rightarrow> jsnum \<Rightarrow> keyboard" where
  "menu_keyboard currentPath subs page =
     (let buttons = button_rows currentPath (page_slice subs page) 0;
          navButtons = nav_buttons currentPath page (total_pages (length subs))
      in if length navButtons > 0 then buttons @ [navButtons] else buttons)"

definition menu_title :: "string list \<Rightarrow> string list \<Rightarrow> jsnum \<Rightarrow> string" where
  "menu_title currentPath subs page =
     (let totalPages = total_pages (length subs);
          pathDisplay = (if length currentPath > 0 then js_join '' > '' currentPath else ''Main Menu'');
          pageInfo = (if totalPages > 1 then page_info page totalPages else [])
      in emoji_open_folder @ '' '' @ pathDisplay @ pageInfo)"

definition sendFolderMenu_body :: "env \<Rightarrow> inst \<Rightarrow> int \<Rightarrow> node \<Rightarrow> string list \<Rightarrow> jsnum \<Rightarrow> unit io" where
  "sendFolderMenu_body env tbot chatId metadata currentPath page =
     (case walk metadata currentPath of
        None \<Rightarrow> sendMessage env tbot chatId (emoji_cross @ '' Folder not found.'') None
      | Some currentFolder \<Rightarrow>
          (let subs = localeSort env (subfolder_names currentFolder);
               fls = files currentFolder
           in andThen
                (if length fls > 0 \<and> page = Num 0
                 then andThen
                        (sendMessage env tbot chatId (text_sending_files (length fls)) None) (\<lambda>_.
                      forward_files env tbot chatId (channel_or currentFolder metadata) fls)
                 else ret ()) (\<lambda>_.
              if length subs = 0
              then andThen
                     (if length fls = 0
                      then sendMessage env tbot chatId (emoji_mailbox @ '' This folder is empty.'') None
                      else ret ()) (\<lambda>_.
                   if length currentPath > 0
                   then sendMessage env tbot chatId ''Navigation:'' (Some [[main_menu_button]])
                   else ret ())
              else sendMessage env tbot chatId (menu_title currentPath subs page)
                     (Some (menu_keyboard currentPath subs page)))))"

definition sendFolderMenu :: "env \<Rightarrow> inst \<Rightarrow> int \<Rightarrow> node \<Rightarrow> string list \<Rightarrow> jsnum \<Rightarrow> unit io" where
  "sendFolderMenu env tbot chatId metadata currentPath page =
     tryCatch (sendFolderMenu_body env tbot chatId metadata currentPath page) (\<lambda>error.
       andThen (console_error ''Error sending folder menu:'' (Some error)) (\<lambda>_.
       tryCatch (sendMessage env tbot chatId (emoji_cross @ '' Error loading folder menu.'') None)
         (\<lambda>e. console_error ''Failed to send error message:'' (Some e))))"

section \<open>The registry: \<open>addBot\<close>, \<open>stopBot\<close>, \<open>stopAllBots\<close>\<close>

text \<open>The constructor: two empty Maps and no recovery interval.\<close>

definition empty_botInfo :: botInfo where
  "empty_botInfo =
     \<lparr>bi_instance = 0, bi_botId = [], bi_token = [], bi_channelId = [],
      bi_metadata = Node None [] None, bi_status = [], bi_ownerId = None, bi_started = 0,
      bi_errors = [], bi_lastHealthCheck = 0\<rparr>"

definition new_BotManager :: sys where
  "new_BotManager =
     \<lparr>bots = [], botTokenMap = [], recoveryInterval = None, botInfos = (\<lambda>_. empty_botInfo),
      handlers = (\<lambda>_. None), next_inst = 0, next_timer = 0, active_timers = [], tick = 0,
      trace = []\<rparr>"

text \<open>\<open>setupBotHandlers\<close> reads the administrator's id, destructures \<open>botInfo\<close> and attaches
  the four listeners, which are \<open>on_polling_error\<close>, \<open>onText_start\<close>, \<open>on_message\<close> and
  \<open>on_callback_query\<close> below, to the instance.\<close>

definition setupBotHandlers :: "env \<Rightarrow> inst \<Rightarrow> unit io" where
  "setupBotHandlers env r =
     andThen (deref r) (\<lambda>info.
     andThen (pure_call (getAdminUserId env)) (\<lambda>adminUserId.
     modify (\<lambda>s. s\<lparr>handlers := (handlers s)(bi_instance info \<mapsto>
       \<lparr>c_botInfo = r, c_bot = bi_instance info, c_botId = bi_botId info,
        c_channelId = bi_channelId info, c_metadata = bi_metadata info,
        c_status = bi_status info, c_ownerId = bi_ownerId info,
        c_adminUserId = adminUserId\<rparr>)\<rparr>)))"

text \<open>The object literal \<open>botInfo\<close> of \<open>addBot\<close>, created at time \<open>t\<close>.\<close>

definition make_botInfo ::
  "inst \<Rightarrow> botId \<Rightarrow> token \<Rightarrow> string \<Rightarrow> node \<Rightarrow> string \<Rightarrow> int option \<Rightarrow> nat \<Rightarrow> botInfo" where
  "make_botInfo tbot botId token channelId metadata status ownerId t =
     \<lparr>bi_instance = tbot, bi_botId = botId, bi_token = token, bi_channelId = channelId,
      bi_metadata = metadata, bi_status = status, bi_ownerId = ownerId, bi_started = t,
      bi_errors = [], bi_lastHealthCheck = t\<rparr>"

definition addBot ::
  "env \<Rightarrow> botId \<Rightarrow> token \<Rightarrow> string \<Rightarrow> node \<Rightarrow> string \<Rightarrow> int option \<Rightarrow> botId option io" where
  "addBot env botId token channelId metadata status ownerId =
     tryCatch
       (andThen (new_TelegramBot env token) (\<lambda>tbot.
        andThen (tryCatch (getMe env tbot)
                   (\<lambda>error. throw (JsError (text_invalid_token error)))) (\<lambda>_.
        andThen (now env) (\<lambda>t.
        andThen (modify (\<lambda>s. s\<lparr>botInfos := (botInfos s)(tbot :=
                   make_botInfo tbot botId token channelId metadata status ownerId t)\<rparr>)) (\<lambda>_.
        andThen (modify (\<lambda>s. s\<lparr>bots := AList.update botId tbot (bots s)\<rparr>)) (\<lambda>_.
        andThen (modify (\<lambda>s. s\<lparr>botTokenMap := AList.update token botId (botTokenMap s)\<rparr>)) (\<lambda>_.
        andThen (setupBotHandlers env tbot) (\<lambda>_.
        andThen (console_log (text_initialized botId status)) (\<lambda>_.
        ret (Some botId))))))))))
       (\<lambda>error.
        andThen (console_error (text_add_error botId) (Some error)) (\<lambda>_.
        andThen (sendAlert env ''error'' (text_add_failed botId error)) (\<lambda>_.
        ret None)))"

definition stopBot :: "env \<Rightarrow> botId \<Rightarrow> unit io" where
  "stopBot env botId =
     andThen (gets (\<lambda>s. map_of (bots s) botId)) (\<lambda>entry.
     case entry of
       None \<Rightarrow> ret ()
     | Some r \<Rightarrow>
         andThen (deref r) (\<lambda>info.
         andThen (tryCatch (stopPolling env (bi_instance info))
                    (\<lambda>error. console_error (text_stop_error botId) (Some error))) (\<lambda>_.
         andThen (modify (\<lambda>s. s\<lparr>bots := AList.delete botId (bots s)\<rparr>)) (\<lambda>_.
         andThen (modify (\<lambda>s. s\<lparr>botTokenMap := AList.delete (bi_token info) (botTokenMap s)\<rparr>)) (\<lambda>_.
         console_log (text_stopped botId))))))"

definition clearInterval :: "nat \<Rightarrow> unit io" where
  "clearInterval t =
     modify (\<lambda>s. s\<lparr>active_timers := removeAll t (active_timers s),
                    trace := trace s @ [(ClearInterval t, True)]\<rparr>)"

fun stop_each :: "env \<Rightarrow> (botId \<times> inst) list \<Rightarrow> unit io" where
  "stop_each env [] = ret ()"
| "stop_each env ((botId, r) # rest) =
     andThen (deref r) (\<lambda>info.
     andThen (tryCatch (stopPolling env (bi_instance info))
                (\<lambda>error. console_error (text_stop_error botId) (Some error))) (\<lambda>_.
     stop_each env rest))"

definition stopAllBots :: "env \<Rightarrow> unit io" where
  "stopAllBots env =
     andThen (gets recoveryInterval) (\<lambda>interval.
     andThen (case interval of None \<Rightarrow> ret () | Some t \<Rightarrow> clearInterval t) (\<lambda>_.
     andThen (console_log ''Stopping all bots...'') (\<lambda>_.
     andThen (gets bots) (\<lambda>entries.
     andThen (stop_each env entries) (\<lambda>_.
     andThen (modify (\<lambda>s. s\<lparr>bots := []\<rparr>)) (\<lambda>_.
     andThen (modify (\<lambda>s. s\<lparr>botTokenMap := []\<rparr>)) (\<lambda>_.
     console_log (emoji_tick @ '' All bots stopped''))))))))"

text \<open>\<open>this.bots.size\<close>: the Maps keep one entry per key (\<open>AList.update\<close>), so the size is
  the length.\<close>

definition getActiveBotCount :: "sys \<Rightarrow> nat" where
  "getActiveBotCount s = length (bots s)"

definition getBotInfo :: "sys \<Rightarrow> botId \<Rightarrow> botInfo option" where
  "getBotInfo s botId = map_option (botInfos s) (map_of (bots s) botId)"

text \<open>\<open>`${x}`\<close> of a sanitizer's result.\<close>

definition template :: "string option \<Rightarrow> string" where
  "template v = (case v of None \<Rightarrow> ''null'' | Some t \<Rightarrow> t)"

definition admin_header :: string where
  "admin_header = emoji_envelope @ '' Message from Administrator:'' @ newline @ newline"

definition sendAdminMessage :: "env \<Rightarrow> botId \<Rightarrow> int \<Rightarrow> string \<Rightarrow> bool io" where
  "sendAdminMessage env botId ownerId msg =
     tryCatch
       (andThen (gets (\<lambda>s. getBotInfo s botId)) (\<lambda>found.
        case found of
          None \<Rightarrow> throw (JsError ''Bot not found'')
        | Some info \<Rightarrow>
            andThen (pure_call (sanitizeInput env (Some msg))) (\<lambda>sanitizedMessage.
            andThen (sendMessage env (bi_instance info) ownerId
                       (admin_header @ template sanitizedMessage) None) (\<lambda>_.
            ret True))))
       (\<lambda>error.
        andThen (console_error ''Error sending admin message:'' (Some error)) (\<lambda>_.
        throw error))"

section \<open>The handlers of \<open>setupBotHandlers\<close>\<close>

text \<open>The \<open>polling_error\<close> listener.  \<open>stopBot\<close> and the alert are started without
  \<open>await\<close>, each with \<open>.catch(console.error)\<close>; they are run one after the other here.\<close>

definition self_stop :: "env \<Rightarrow> botId \<Rightarrow> unit io" where
  "self_stop env botId =
     andThen (console_error (text_too_many botId) None) (\<lambda>_.
     andThen (tryCatch (stopBot env botId) (\<lambda>e. console_error [] (Some e))) (\<lambda>_.
     tryCatch (sendAlert env ''error'' (text_stopped_repeated botId))
       (\<lambda>e. console_error [] (Some e))))"

definition on_polling_error :: "env \<Rightarrow> closure \<Rightarrow> js_error \<Rightarrow> unit io" where
  "on_polling_error env c error =
     andThen (console_error (text_polling_error (c_botId c)) (Some error)) (\<lambda>_.
     andThen (now env) (\<lambda>t.
     andThen (update_botInfo (c_botInfo c)
                (\<lambda>info. info\<lparr>bi_errors := bi_errors info @ [ErrorEntry t (message error) ''polling'']\<rparr>)) (\<lambda>_.
     andThen (deref (c_botInfo c)) (\<lambda>info.
     if length (bi_errors info) > 10
     then self_stop env (c_botId c)
     else ret ()))))"

text \<open>The status gate of \<open>/start\<close>; the value says whether the handler goes on to the
  welcome message.\<close>

definition start_gate :: "env \<Rightarrow> closure \<Rightarrow> int \<Rightarrow> int \<Rightarrow> bool io" where
  "start_gate env c userId chatId =
     (if c_status c = ''pending''
      then (if userId \<noteq> c_adminUserId c
            then ret False
            else andThen (sendMessage env (c_bot c) chatId
                            (emoji_warning @ '' ADMIN TEST MODE '' @ emoji_warning @ newline @ newline @
                             ''This bot is pending approval. You are testing as admin.'') None) (\<lambda>_.
                 ret True))
      else if c_status c = ''disconnected''
      then andThen (sendMessage env (c_bot c) chatId
                      (emoji_no_entry @ '' This bot is currently disconnected. Please contact the administrator.'')
                      None) (\<lambda>_.
           ret False)
      else if c_status c = ''banned''
      then ret False
      else ret True)"

definition onText_start_body :: "env \<Rightarrow> closure \<Rightarrow> message \<Rightarrow> unit io" where
  "onText_start_body env c msg =
     andThen (property_id (msg_from msg)) (\<lambda>userId.
     andThen (property_id (msg_chat msg)) (\<lambda>chatId.
     andThen (pure_call (sanitizeTelegramMessage env msg)) (\<lambda>sanitizedMsg.
     if sanitizedMsg = None
     then sendAlert env ''security'' (blocked_text ''message'' userId (c_botId c))
     else andThen (start_gate env c userId chatId) (\<lambda>proceed.
          if \<not> proceed then ret ()
          else andThen (pure_call (getWelcomeMessage env)) (\<lambda>welcomeMsg.
               andThen (sendMessage env (c_bot c) chatId welcomeMsg None) (\<lambda>_.
               sendFolderMenu env (c_bot c) chatId (c_metadata c) [] (Num 0)))))))"

definition onText_start :: "env \<Rightarrow> closure \<Rightarrow> message \<Rightarrow> unit io" where
  "onText_start env c msg =
     tryCatch (onText_start_body env c msg)
       (\<lambda>error. console_error (text_handler_error ''/start'' (c_botId c)) (Some error))"

text \<open>\<open>!ownerId\<close>\<close>

definition no_owner :: "int option \<Rightarrow> bool" where
  "no_owner ownerId = (ownerId = None \<or> ownerId = Some 0)"

definition registration_ok :: string where
  "registration_ok =
     emoji_check @ '' Registration successful! Your bot has been submitted for review.'' @ newline @ newline @
     ''You will be notified once approved.''"

definition on_message_body :: "env \<Rightarrow> closure \<Rightarrow> message \<Rightarrow> unit io" where
  "on_message_body env c msg =
     (if (case msg_text msg of None \<Rightarrow> False | Some t \<Rightarrow> t \<noteq> [] \<and> startsWith t ''/'')
      then ret ()
      else
        andThen (property_id (msg_from msg)) (\<lambda>userId.
        andThen (property_id (msg_chat msg)) (\<lambda>chatId.
        andThen (ret (case msg_text msg of None \<Rightarrow> [] | Some t \<Rightarrow> t)) (\<lambda>txt.
        andThen (pure_call (sanitizeTelegramMessage env msg)) (\<lambda>sanitizedMsg.
        if sanitizedMsg = None
        then sendAlert env ''security'' (blocked_text ''message'' userId (c_botId c))
        else if no_owner (c_ownerId c) \<and> js_includes (toLowerCase txt) ''register''
        then andThen (ext_call env (RegisterBotOwner (c_botId c) userId)) (\<lambda>_.
             andThen (update_botInfo (c_botInfo c) (\<lambda>info. info\<lparr>bi_ownerId := Some userId\<rparr>)) (\<lambda>_.
             andThen (sendMessage env (c_bot c) chatId registration_ok None) (\<lambda>_.
             sendAlert env ''registration'' (text_owner_registered (c_botId c) userId))))
        else andThen (pure_call (getInvalidInputMessage env)) (\<lambda>invalidMsg.
             sendMessage env (c_bot c) chatId invalidMsg None))))))"

definition on_message :: "env \<Rightarrow> closure \<Rightarrow> message \<Rightarrow> unit io" where
  "on_message env c msg =
     tryCatch (on_message_body env c msg)
       (\<lambda>error. console_error (text_handler_error ''message'' (c_botId c)) (Some error))"

definition decode_path :: "string list \<Rightarrow> string list" where
  "decode_path pathParts = filter (\<lambda>p. p \<noteq> []) (js_split CHR ''/'' (js_join ''|'' pathParts))"

definition dispatch_action :: "env \<Rightarrow> closure \<Rightarrow> callback_query \<Rightarrow> int \<Rightarrow> string \<Rightarrow> unit io" where
  "dispatch_action env c query chatId sanitizedData =
     (case js_split CHR ''|'' sanitizedData of
        [] \<Rightarrow> ret ()
      | action # pathParts \<Rightarrow>
          if action = ''folder''
          then andThen (sendFolderMenu env (c_bot c) chatId (c_metadata c) (decode_path pathParts) (Num 0)) (\<lambda>_.
               answerCallbackQuery env (c_bot c) (query_id query) None)
          else if action = ''main''
          then andThen (sendFolderMenu env (c_bot c) chatId (c_metadata c) [] (Num 0)) (\<lambda>_.
               answerCallbackQuery env (c_bot c) (query_id query) (Some ''Returned to main menu''))
          else if action = ''page''
          then andThen (sendFolderMenu env (c_bot c) chatId (c_metadata c)
                          (decode_path (drop 1 pathParts))
                          (parseInt (case pathParts of [] \<Rightarrow> None | p # _ \<Rightarrow> Some p))) (\<lambda>_.
               answerCallbackQuery env (c_bot c) (query_id query) None)
          else ret ())"

definition on_callback_query_body :: "env \<Rightarrow> closure \<Rightarrow> callback_query \<Rightarrow> unit io" where
  "on_callback_query_body env c query =
     andThen (property_id (query_from query)) (\<lambda>userId.
     andThen (property_id (query_message_chat query)) (\<lambda>chatId.
     andThen (pure_call (sanitizeInput env (query_data query))) (\<lambda>sanitizedData.
     case sanitizedData of
       None \<Rightarrow> sendAlert env ''security'' (blocked_text ''callback'' userId (c_botId c))
     | Some d \<Rightarrow>
         if d = []
         then sendAlert env ''security'' (blocked_text ''callback'' userId (c_botId c))
         else if c_status c = ''pending'' \<and> userId \<noteq> c_adminUserId c
         then answerCallbackQuery env (c_bot c) (query_id query) None
         else if c_status c = ''disconnected'' \<or> c_status c = ''banned''
         then answerCallbackQuery env (c_bot c) (query_id query) None
         else dispatch_action env c query chatId d)))"

definition on_callback_query :: "env \<Rightarrow> closure \<Rightarrow> callback_query \<Rightarrow> unit io" where
  "on_callback_query env c query =
     tryCatch (on_callback_query_body env c query) (\<lambda>error.
       andThen (console_error (text_handler_error ''callback'' (c_botId c)) (Some error)) (\<lambda>_.
       tryCatch (answerCallbackQuery env (c_bot c) (query_id query) (Some ''Error processing request''))
         (\<lambda>e. console_error ''Failed to answer callback query:'' (Some e))))"

section \<open>The recovery monitor and \<open>loadAllBots\<close>\<close>

definition storage_getBotById :: "env \<Rightarrow> botId \<Rightarrow> botData option io" where
  "storage_getBotById env botId =
     andThen (gets tick) (\<lambda>n.
     andThen (ext_call env (GetBotById botId)) (\<lambda>_.
     ret (getBotById env n botId)))"

definition storage_getAllBots :: "env \<Rightarrow> botData list io" where
  "storage_getAllBots env =
     andThen (gets tick) (\<lambda>n.
     andThen (ext_call env GetAllBots) (\<lambda>_.
     ret (getAllBots env n)))"

definition restart :: "env \<Rightarrow> botId \<Rightarrow> unit io" where
  "restart env botId =
     tryCatch
       (andThen (stopBot env botId) (\<lambda>_.
        andThen (storage_getBotById env botId) (\<lambda>found.
        case found of
          None \<Rightarrow> ret ()
        | Some b \<Rightarrow>
            if bd_status b = ''approved''
            then andThen (addBot env botId (bd_botToken b) (bd_channelId b) (bd_metadata b)
                            (bd_status b) (bd_ownerId b)) (\<lambda>_.
                 sendAlert env ''recovery'' (text_restarted botId))
            else ret ())))
       (\<lambda>restartError.
        andThen (console_error (text_restart_error botId) (Some restartError)) (\<lambda>_.
        sendAlert env ''error'' (text_restart_failed botId restartError)))"

text \<open>The body of the monitor's loop for one entry \<open>[botId, botInfo]\<close> of \<open>this.bots\<close>.\<close>

definition health_check :: "env \<Rightarrow> botId \<Rightarrow> inst \<Rightarrow> unit io" where
  "health_check env botId r =
     tryCatch
       (andThen (deref r) (\<lambda>info.
        andThen (getMe env (bi_instance info)) (\<lambda>_.
        andThen (update_botInfo r (\<lambda>i. i\<lparr>bi_errors := []\<rparr>)) (\<lambda>_.
        andThen (now env) (\<lambda>t.
        update_botInfo r (\<lambda>i. i\<lparr>bi_lastHealthCheck := t\<rparr>))))))
       (\<lambda>error.
        andThen (console_error (text_health_failed botId) (Some error)) (\<lambda>_.
        andThen (now env) (\<lambda>t.
        andThen (update_botInfo r
                   (\<lambda>i. i\<lparr>bi_errors := bi_errors i @ [ErrorEntry t (message error) ''health_check'']\<rparr>)) (\<lambda>_.
        andThen (deref r) (\<lambda>info.
        if length (bi_errors info) \<ge> 3
        then andThen (console_log (text_attempt_restart botId)) (\<lambda>_.
             restart env botId)
        else ret ())))))"

text \<open>One run of the interval's callback: the loop over the live Map.  An entry deleted by
  a restart leaves the position of the iteration where it is, and the entry added again
  at the end is visited too.  The fuel bounds the number of visits.\<close>

fun recovery_pass :: "env \<Rightarrow> nat \<Rightarrow> nat \<Rightarrow> unit io" where
  "recovery_pass env 0 k = ret ()"
| "recovery_pass env (Suc fuel) k =
     andThen (gets bots) (\<lambda>entries.
     if k < length entries
     then andThen (health_check env (fst (entries ! k)) (snd (entries ! k))) (\<lambda>_.
          andThen (gets bots) (\<lambda>entries'.
          recovery_pass env fuel
            (if k < length entries' \<and> entries' ! k = entries ! k then Suc k else k)))
     else ret ())"

definition startRecoveryMonitor :: "unit io" where
  "startRecoveryMonitor =
     andThen (gets next_timer) (\<lambda>t.
     modify (\<lambda>s. s\<lparr>next_timer := Suc t, active_timers := t # active_timers s,
                    recoveryInterval := Some t,
                    trace := trace s @ [(SetInterval t, True)]\<rparr>))"

fun load_each :: "env \<Rightarrow> botData list \<Rightarrow> unit io" where
  "load_each env [] = ret ()"
| "load_each env (b # rest) =
     andThen (if bd_status b \<noteq> ''banned''
              then andThen (addBot env (bd_id b) (bd_botToken b) (bd_channelId b) (bd_metadata b)
                              (bd_status b) (bd_ownerId b)) (\<lambda>_. ret ())
              else ret ()) (\<lambda>_.
     load_each env rest)"

definition loadAllBots :: "env \<Rightarrow> unit io" where
  "loadAllBots env =
     tryCatch
       (andThen (storage_getAllBots env) (\<lambda>allBots.
        andThen (console_log (''Loading '' @ string_of_nat (length allBots) @ '' bots...'')) (\<lambda>_.
        andThen (load_each env allBots) (\<lambda>_.
        andThen (gets (\<lambda>s. length (bots s))) (\<lambda>n.
        andThen (console_log (emoji_tick @ '' Loaded '' @ string_of_nat n @ '' active bots'')) (\<lambda>_.
        startRecoveryMonitor))))))
       (\<lambda>error.
        andThen (console_error ''Error loading bots:'' (Some error)) (\<lambda>_.
        throw error))"

section \<open>Event streams\<close>

text \<open>The inbound interaction events of one instance, by the listener the platform
  library calls for them.  The library's stream driver is outside bot-manager.js; it is
  taken at its harshest: an exception that escapes a listener ends the whole run.\<close>

datatype event = StartCommand message | TextMessage message | CallbackQuery callback_query

definition handle_event_body :: "env \<Rightarrow> closure \<Rightarrow> event \<Rightarrow> unit io" where
  "handle_event_body env c ev =
     (case ev of
        StartCommand msg \<Rightarrow> onText_start_body env c msg
      | TextMessage msg \<Rightarrow> on_message_body env c msg
      | CallbackQuery query \<Rightarrow> on_callback_query_body env c query)"

definition handle_event :: "env \<Rightarrow> closure \<Rightarrow> event \<Rightarrow> unit io" where
  "handle_event env c ev =
     (case ev of
        StartCommand msg \<Rightarrow> onText_start env c msg
      | TextMessage msg \<Rightarrow> on_message env c msg
      | CallbackQuery query \<Rightarrow> on_callback_query env c query)"

definition log_prefix :: "closure \<Rightarrow> event \<Rightarrow> string" where
  "log_prefix c ev =
     text_handler_error
       (case ev of StartCommand _ \<Rightarrow> ''/start'' | TextMessage _ \<Rightarrow> ''message'' | CallbackQuery _ \<Rightarrow> ''callback'')
       (c_botId c)"

definition deliver :: "env \<Rightarrow> inst \<Rightarrow> event \<Rightarrow> unit io" where
  "deliver env tbot ev =
     andThen (gets (\<lambda>s. handlers s tbot)) (\<lambda>listener.
     case listener of
       None \<Rightarrow> ret ()
     | Some c \<Rightarrow> handle_event env c ev)"

text \<open>The library emits \<open>polling_error\<close> on an instance: the listener that
  \<open>setupBotHandlers\<close> attached to that instance, if any, runs.\<close>

definition emit_polling_error :: "env \<Rightarrow> inst \<Rightarrow> js_error \<Rightarrow> unit io" where
  "emit_polling_error env tbot error =
     andThen (gets (\<lambda>s. handlers s tbot)) (\<lambda>listener.
     case listener of
       None \<Rightarrow> ret ()
     | Some c \<Rightarrow> on_polling_error env c error)"

fun stream_driver :: "env \<Rightarrow> (inst \<times> event) list \<Rightarrow> nat io" where
  "stream_driver env [] = ret 0"
| "stream_driver env ((tbot, ev) # rest) =
     andThen (deliver env tbot ev) (\<lambda>_.
     andThen (stream_driver env rest) (\<lambda>n.
     ret (Suc n)))"

section \<open>Sequences of registry operations\<close>

datatype registry_op =
    Add botId token string node string "int option"
  | Remove botId
  | StopAll

fun apply_op :: "env \<Rightarrow> registry_op \<Rightarrow> sys \<Rightarrow> sys" where
  "apply_op env (Add botId token channelId metadata status ownerId) s =
     snd (addBot env botId token channelId metadata status ownerId s)"
| "apply_op env (Remove botId) s = snd (stopBot env botId s)"
| "apply_op env StopAll s = snd (stopAllBots env s)"

fun run_ops :: "env \<Rightarrow> registry_op list \<Rightarrow> sys \<Rightarrow> sys" where
  "run_ops env [] s = s"
| "run_ops env (x # xs) s = run_ops env xs (apply_op env x s)"

text \<open>Every key of the token map names an identifier that has an entry in \<open>bots\<close>.\<close>

definition token_keys_live :: "sys \<Rightarrow> bool" where
  "token_keys_live s = list_all (\<lambda>(tok, botId). map_of (bots s) botId \<noteq> None) (botTokenMap s)"

text \<open>Each \<open>Add\<close> of the sequence meets an identifier that is not registered at that
  moment.\<close>

fun adds_fresh :: "env \<Rightarrow> registry_op list \<Rightarrow> sys \<Rightarrow> bool" where
  "adds_fresh env [] s = True"
| "adds_fresh env (x # xs) s =
     ((case x of Add botId _ _ _ _ _ \<Rightarrow> map_of (bots s) botId = None | _ \<Rightarrow> True)
      \<and> adds_fresh env xs (apply_op env x s))"

text \<open>The instances that poll: constructed, and not stopped by a \<open>stopPolling\<close> that
  returned.\<close>

definition polling_step :: "effect \<times> bool \<Rightarrow> inst list \<Rightarrow> inst list" where
  "polling_step x acc =
     (case x of
        (NewTelegramBot i _, True) \<Rightarrow> acc @ [i]
      | (StopPolling i, True) \<Rightarrow> removeAll i acc
      | _ \<Rightarrow> acc)"

definition polling_instances :: "(effect \<times> bool) list \<Rightarrow> inst list" where
  "polling_instances tr = fold polling_step tr []"

text \<open>What an operation added to the trace.\<close>

definition new_trace :: "sys \<Rightarrow> sys \<Rightarrow> (effect \<times> bool) list" where
  "new_trace s s' = drop (length (trace s)) (trace s')"

section \<open>Environments and inputs for the examples\<close>

text \<open>No call fails, the sanitizers accept everything as it is, the administrator is
  user 1.\<close>

definition env_ok :: env where
  "env_ok =
     \<lparr>faults = (\<lambda>_. None), clock = (\<lambda>n. n),
      sanitizeTelegramMessage = (\<lambda>m. Inr (Some m)),
      sanitizeInput = (\<lambda>v. Inr v),
      getAdminUserId = Inr 1, getWelcomeMessage = Inr ''Welcome'',
      getInvalidInputMessage = Inr ''Invalid input'',
      getBotById = (\<lambda>_ _. None), getAllBots = (\<lambda>_. []),
      localeSort = (\<lambda>xs. xs)\<rparr>"

definition env_failing :: "nat \<Rightarrow> env" where
  "env_failing n = env_ok\<lparr>faults := (\<lambda>k. if k = n then Some ''ETELEGRAM: 401 Unauthorized'' else None)\<rparr>"

text \<open>From the \<open>n\<close>-th outbound call on every call fails: the platform and the
  administrator's alert channel are both unreachable.\<close>

definition env_down :: "nat \<Rightarrow> env" where
  "env_down n = env_ok\<lparr>faults := (\<lambda>k. if n \<le> k then Some ''ETELEGRAM: 401 Unauthorized'' else None)\<rparr>"

text \<open>The tree of the specification's scenario, and a root with the single child \<open>a\<close>.\<close>

definition tree_docs :: node where
  "tree_docs = Node (Some [(''Docs'', Node (Some []) [FileRef 1] None)]) [] None"

definition tree_a :: node where
  "tree_a = Node (Some [(''a'', Node (Some []) [] None)]) [] None"

text \<open>A root with the 31 children \<open>f1\<close>, ..., \<open>f31\<close>: two pages.\<close>

definition names_31 :: "string list" where
  "names_31 = map (\<lambda>n. CHR ''f'' # string_of_nat n) [1..<32]"

definition tree_31 :: node where
  "tree_31 = Node (Some (map (\<lambda>name. (name, Node (Some []) [] None)) names_31)) [] None"

definition closure_A :: closure where
  "closure_A =
     \<lparr>c_botInfo = 0, c_bot = 0, c_botId = ''A'', c_channelId = ''@channel'', c_metadata = tree_docs,
      c_status = ''approved'', c_ownerId = None, c_adminUserId = 1\<rparr>"

definition message_without_sender :: event where
  "message_without_sender = TextMessage \<lparr>msg_from = None, msg_chat = Some 5, msg_text = Some ''hello''\<rparr>"

text \<open>The manager after \<open>addBot('A', 'tokA', ...)\<close> with no owner, and after the monitor was
  started too.\<close>

definition registered_A :: sys where
  "registered_A = snd (addBot env_ok ''A'' ''tokA'' ''@channel'' tree_docs ''approved'' None new_BotManager)"

definition monitored_A :: sys where
  "monitored_A = snd (startRecoveryMonitor registered_A)"

text \<open>Two sequences of registry operations: one adds the identifier \<open>A\<close> again under
  another token before removing it, the other adds two identifiers and removes one.\<close>

definition ops_readd :: "registry_op list" where
  "ops_readd =
     [Add ''A'' ''tokA'' ''@channel'' tree_docs ''approved'' None,
      Add ''A'' ''tokB'' ''@channel'' tree_docs ''approved'' None,
      Remove ''A'']"

definition ops_two_bots :: "registry_op list" where
  "ops_two_bots =
     [Add ''A'' ''tokA'' ''@channel'' tree_docs ''approved'' None,
      Add ''B'' ''tokB'' ''@channel'' tree_docs ''pending'' None,
      Remove ''A'']"

text \<open>A sanitizer that removes angle brackets.\<close>

definition env_strict :: env where
  "env_strict = env_ok\<lparr>sanitizeInput :=
     (\<lambda>v. Inr (map_option (filter (\<lambda>ch. ch \<noteq> CHR ''<'' \<and> ch \<noteq> CHR ''>'')) v))\<rparr>"

text \<open>The manager after the library has emitted two polling errors on \<open>A\<close>'s instance,
  which is instance 0.\<close>

definition two_polling_errors :: sys where
  "two_polling_errors =
     snd (emit_polling_error env_ok 0 (JsError ''ETIMEDOUT'')
       (snd (emit_polling_error env_ok 0 (JsError ''ETIMEDOUT'') registered_A)))"

text \<open>A registration message of a user, and a callback whose action tag is none of
  \<open>folder\<close>, \<open>main\<close> and \<open>page\<close>.\<close>

definition register_from :: "int \<Rightarrow> event" where
  "register_from userId =
     TextMessage \<lparr>msg_from = Some userId, msg_chat = Some userId, msg_text = Some ''Register''\<rparr>"

definition unknown_action_query :: callback_query where
  "unknown_action_query =
     \<lparr>query_id = ''q1'', query_from = Some 7, query_message_chat = Some 7,
      query_data = Some ''bogus|Docs''\<rparr>"

section \<open>Auxiliary notions for the proofs\<close>

text \<open>The state of \<open>stopAllBots\<close> when its loop starts.\<close>

definition stopAll_begin :: "sys \<Rightarrow> sys" where
  "stopAll_begin s =
     (let s1 = (case recoveryInterval s of None \<Rightarrow> s | Some t \<Rightarrow> snd (clearInterval t s))
      in s1\<lparr>trace := trace s1 @ [(ConsoleLog ''Stopping all bots...'', True)]\<rparr>)"

text \<open>The invariant of the registry: a key of the token map names an entry of \<open>bots\<close>
  whose object carries that token, and every reference in \<open>bots\<close> was allocated.\<close>

definition registry_inv :: "sys \<Rightarrow> bool" where
  "registry_inv s =
     ((\<forall>(tok, botId) \<in> set (botTokenMap s).
         \<exists>r. map_of (bots s) botId = Some r \<and> bi_token (botInfos s r) = tok) \<and>
      (\<forall>(botId, r) \<in> set (bots s). r < next_inst s))"

text \<open>The navigation row of a page after the first: \<open>Back\<close>, and \<open>Main\<close> off the root.\<close>

definition back_row :: "string list \<Rightarrow> int \<Rightarrow> button list" where
  "back_row currentPath p =
     \<lparr>button_text = emoji_left @ '' Back'', callback_data = page_payload (Num (p - 1)) currentPath\<rparr> #
     (if currentPath = [] then []
      else [\<lparr>button_text = emoji_house @ '' Main'', callback_data = ''main|''\<rparr>])"

text \<open>The navigation row of a page before the last: \<open>Next\<close>, and \<open>Main\<close> off the root.\<close>

definition main_button :: button where
  "main_button = \<lparr>button_text = emoji_house @ '' Main'', callback_data = ''main|''\<rparr>"

definition next_row :: "string list \<Rightarrow> int \<Rightarrow> button list" where
  "next_row currentPath p =
     \<lparr>button_text = emoji_right @ '' Next'', callback_data = page_payload (Num (p + 1)) currentPath\<rparr> #
     (if currentPath = [] then [] else [main_button])"

text \<open>The breadcrumb of the title.\<close>

definition path_display :: "string list \<Rightarrow> string" where
  "path_display currentPath = (if currentPath = [] then ''Main Menu'' else js_join '' > '' currentPath)"

text \<open>The children at the positions \<open>length + 30 * p\<close> up to \<open>length + 30 * p + 30\<close>, cut
  to the list: for a negative \<open>p\<close>, the 30 positions that end \<open>30 * (- p - 1)\<close> before
  the end of the list.\<close>

definition from_end :: "string list \<Rightarrow> int \<Rightarrow> string list" where
  "from_end subs p =
     drop (nat (int (length subs) + 30 * p)) (take (nat (int (length subs) + 30 * p + 30)) subs)"

text \<open>A page that is none of \<open>0, ..., totalPages - 1\<close> for \<open>n\<close> children.\<close>

fun out_of_range :: "nat \<Rightarrow> jsnum \<Rightarrow> bool" where
  "out_of_range n NaN = True"
| "out_of_range n (Num p) = (p < 0 \<or> total_pages n \<le> p)"

text \<open>The pages for which every number that \<open>sendFolderMenu\<close> computes (\<open>page * 30\<close>,
  \<open>page * 30 + 30\<close>, \<open>page - 1\<close>, \<open>page + 1\<close>) is an integer of magnitude at most \<open>2^53\<close>,
  so that the code's doubles hold and print exactly the integers of this model.\<close>

fun exact_page :: "jsnum \<Rightarrow> bool" where
  "exact_page NaN = True"
| "exact_page (Num p) = (\<bar>p\<bar> * 30 + 30 \<le> 9007199254740992)"

text \<open>The listener attached to the instance of the runtime registered under an identifier
  closes over the very object that \<open>bots\<close> holds for that identifier.\<close>

definition listener_shares :: "sys \<Rightarrow> botId \<Rightarrow> bool" where
  "listener_shares s botId =
     (case map_of (bots s) botId of
        None \<Rightarrow> False
      | Some r \<Rightarrow>
          (case handlers s (bi_instance (botInfos s r)) of
             None \<Rightarrow> False
           | Some c \<Rightarrow> c_botInfo c = r \<and> c_botId c = botId))"

text \<open>The state after a failed health check has been logged and counted, and the state
  after a polling error has been logged and counted.\<close>

definition after_health_failure :: "env \<Rightarrow> botId \<Rightarrow> inst \<Rightarrow> string \<Rightarrow> sys \<Rightarrow> sys" where
  "after_health_failure env botId r m s =
     s\<lparr>tick := Suc (tick s),
       trace := trace s @
         [(GetMe (bi_instance (botInfos s r)), False),
          (ConsoleError (text_health_failed botId) (Some (JsError m)), True)],
       botInfos := (botInfos s)(r := (botInfos s r)
         \<lparr>bi_errors := bi_errors (botInfos s r) @
            [ErrorEntry (clock env (Suc (tick s))) m ''health_check'']\<rparr>)\<rparr>"

definition after_polling_error :: "env \<Rightarrow> closure \<Rightarrow> js_error \<Rightarrow> sys \<Rightarrow> sys" where
  "after_polling_error env c error s =
     s\<lparr>trace := trace s @ [(ConsoleError (text_polling_error (c_botId c)) (Some error), True)],
       botInfos := (botInfos s)(c_botInfo c := (botInfos s (c_botInfo c))
         \<lparr>bi_errors := bi_errors (botInfos s (c_botInfo c)) @
            [ErrorEntry (clock env (tick s)) (message error) ''polling'']\<rparr>)\<rparr>"

section \<open>Proof tools\<close>

lemmas io_defs = ret_def throw_def andThen_def tryCatch_def gets_def modify_def pure_call_def
  ext_call_def console_error_def console_log_def property_id_def deref_def update_botInfo_def
  now_def sendMessage_def forwardMessage_def answerCallbackQuery_def getMe_def stopPolling_def
  sendAlert_def

lemmas run_defs = addBot_def new_TelegramBot_def setupBotHandlers_def stopBot_def io_defs
  env_ok_def new_BotManager_def make_botInfo_def

lemma andThen_Inr: "fst (m s) = Inr x \<Longrightarrow> andThen m f s = f x (snd (m s))"
  by (cases "m s") (simp add: andThen_def)

lemma andThen_unit: "fst (m s) = Inr () \<Longrightarrow> andThen m f s = f () (snd (m s))"
  by (rule andThen_Inr)

lemma andThen_gets: "andThen (gets f) k s = k (f s) s"
  by (simp add: andThen_def gets_def)

lemma andThen_modify: "andThen (modify f) k s = k () (f s)"
  by (simp add: andThen_def modify_def)

lemma andThen_ret: "andThen (ret x) k s = k x s"
  by (simp add: andThen_def ret_def)

lemma andThen_console_log:
  "andThen (console_log txt) k s = k () (s\<lparr>trace := trace s @ [(ConsoleLog txt, True)]\<rparr>)"
  by (simp add: andThen_def console_log_def modify_def)

lemma andThen_console_error:
  "andThen (console_error txt e) k s = k () (s\<lparr>trace := trace s @ [(ConsoleError txt e, True)]\<rparr>)"
  by (simp add: andThen_def console_error_def modify_def)

lemmas step = andThen_gets andThen_modify andThen_ret andThen_console_log andThen_console_error

lemma tryCatch_Inl: "fst (m s) = Inl e \<Longrightarrow> tryCatch m h s = h e (snd (m s))"
  by (cases "m s") (simp add: tryCatch_def)

lemma tryCatch_returns:
  assumes "\<And>e s'. fst (h e s') = Inr ()"
  shows "fst (tryCatch m h s) = Inr ()"
proof (cases "m s")
  case (Pair r s')
  show ?thesis
  proof (cases r)
    case (Inl e)
    with Pair show ?thesis by (simp add: tryCatch_def assms)
  next
    case (Inr u)
    with Pair show ?thesis by (simp add: tryCatch_def)
  qed
qed

lemma console_error_returns: "fst (console_error txt e s) = Inr ()"
  by (simp add: console_error_def modify_def)

lemma console_error_trace:
  "trace (snd (console_error txt e s)) = trace s @ [(ConsoleError txt e, True)]"
  by (simp add: console_error_def modify_def)

lemma registered_A_eq:
  "registered_A =
     new_BotManager\<lparr>
       bots := [(''A'', 0)], botTokenMap := [(''tokA'', ''A'')],
       botInfos := (\<lambda>_. empty_botInfo)(0 :=
         \<lparr>bi_instance = 0, bi_botId = ''A'', bi_token = ''tokA'', bi_channelId = ''@channel'',
          bi_metadata = tree_docs, bi_status = ''approved'', bi_ownerId = None, bi_started = Suc (Suc 0),
          bi_errors = [], bi_lastHealthCheck = Suc (Suc 0)\<rparr>),
       handlers := (\<lambda>_. None)(0 \<mapsto> closure_A),
       next_inst := Suc 0, tick := Suc (Suc 0),
       trace := [(NewTelegramBot 0 ''tokA'', True), (GetMe 0, True),
                 (ConsoleLog (text_initialized ''A'' ''approved''), True)]\<rparr>"
  by (simp add: registered_A_def addBot_def new_TelegramBot_def setupBotHandlers_def io_defs
      env_ok_def new_BotManager_def closure_A_def make_botInfo_def)

section \<open>Handler isolation\<close>

lemma handle_event_returns: "fst (handle_event env c ev s) = Inr ()"
proof (cases ev)
  case (StartCommand msg)
  then show ?thesis
    by (simp add: handle_event_def onText_start_def tryCatch_returns console_error_returns)
next
  case (TextMessage msg)
  then show ?thesis
    by (simp add: handle_event_def on_message_def tryCatch_returns console_error_returns)
next
  case (CallbackQuery query)
  have inner: "fst (andThen (console_error p (Some e))
      (\<lambda>_. tryCatch (answerCallbackQuery env b q t) (\<lambda>e'. console_error p' (Some e'))) s') = Inr ()"
    for p e b q t p' s'
    by (simp add: andThen_def console_error_def modify_def tryCatch_returns)
  from CallbackQuery show ?thesis
    by (simp add: handle_event_def on_callback_query_def tryCatch_returns inner)
qed

lemma handle_event_logs:
  assumes "fst (handle_event_body env c ev s) = Inl e"
  shows "(ConsoleError (log_prefix c ev) (Some e), True) \<in> set (trace (snd (handle_event env c ev s)))"
proof (cases ev)
  case (StartCommand msg)
  with assms show ?thesis
    by (simp add: handle_event_def handle_event_body_def onText_start_def log_prefix_def
        tryCatch_Inl console_error_trace)
next
  case (TextMessage msg)
  with assms show ?thesis
    by (simp add: handle_event_def handle_event_body_def on_message_def log_prefix_def
        tryCatch_Inl console_error_trace)
next
  case (CallbackQuery query)
  let ?entry = "(ConsoleError (log_prefix c ev) (Some e), True)"
  let ?s1 = "snd (on_callback_query_body env c query s)"
  let ?s2 = "snd (console_error (log_prefix c ev) (Some e) ?s1)"
  have keep: "x \<in> set (trace s') \<Longrightarrow>
      x \<in> set (trace (snd (tryCatch (answerCallbackQuery env b q t) (\<lambda>e'. console_error p' (Some e')) s')))"
    for x s' b q t p'
    by (simp add: tryCatch_def answerCallbackQuery_def ext_call_def console_error_def modify_def
        split: option.splits)
  from assms CallbackQuery
  have body: "fst (on_callback_query_body env c query s) = Inl e"
    by (simp add: handle_event_body_def)
  have prefix: "text_handler_error ''callback'' (c_botId c) = log_prefix c ev"
    using CallbackQuery by (simp add: log_prefix_def)
  have "on_callback_query env c query s =
      tryCatch (answerCallbackQuery env (c_bot c) (query_id query) (Some ''Error processing request''))
        (\<lambda>e'. console_error ''Failed to answer callback query:'' (Some e')) ?s2"
    unfolding on_callback_query_def prefix
    using tryCatch_Inl [of "on_callback_query_body env c query" s e] body
    by (simp add: andThen_def console_error_def modify_def)
  moreover have "?entry \<in> set (trace ?s2)"
    by (simp add: console_error_trace)
  ultimately show ?thesis
    using CallbackQuery keep by (simp add: handle_event_def)
qed

lemma deliver_returns: "fst (deliver env tbot ev s) = Inr ()"
  by (simp add: deliver_def andThen_def gets_def ret_def handle_event_returns split: option.splits)

lemma stream_driver_all: "fst (stream_driver env evs s) = Inr (length evs)"
proof (induction evs arbitrary: s)
  case Nil
  show ?case by (simp add: ret_def)
next
  case (Cons x evs)
  obtain tbot ev where x: "x = (tbot, ev)" by (cases x)
  obtain s' where d: "deliver env tbot ev s = (Inr (), s')"
    using deliver_returns [of env tbot ev s] by (cases "deliver env tbot ev s") auto
  obtain s'' where r: "stream_driver env evs s' = (Inr (length evs), s'')"
    using Cons.IH [of s'] by (cases "stream_driver env evs s'") auto
  show ?case by (simp add: x andThen_def d r ret_def)
qed

text \<open>
  Claim C1.  Whatever the collaborators do and whatever the update looks like, the
  listener of a start command, a text message or a callback returns normally; when its
  guarded body threw, the exception is on the console log, with the listener's prefix;
  and a stream of events for any instances is delivered to its end, event by event, so no
  event stops a later one of the same or of another instance.
\<close>

theorem handler_exceptions_stay_inside:
  "fst (handle_event env c ev s) = Inr () \<and>
   (fst (handle_event_body env c ev s) = Inl e \<longrightarrow>
      (ConsoleError (log_prefix c ev) (Some e), True) \<in> set (trace (snd (handle_event env c ev s)))) \<and>
   fst (stream_driver env evs s) = Inr (length evs)"
  using handle_event_returns handle_event_logs stream_driver_all by blast

theorem handler_exceptions_stay_inside_witness:
  "fst (handle_event_body env_ok closure_A message_without_sender registered_A) =
     Inl TypeError_id \<and>
   fst (handle_event env_ok closure_A message_without_sender registered_A) = Inr () \<and>
   (ConsoleError (log_prefix closure_A message_without_sender)
      (Some TypeError_id), True)
     \<in> set (trace (snd (handle_event env_ok closure_A message_without_sender registered_A))) \<and>
   fst (stream_driver env_ok
          [(0, message_without_sender),
           (0, StartCommand \<lparr>msg_from = Some 7, msg_chat = Some 5, msg_text = Some ''/start''\<rparr>)]
          registered_A) = Inr 2"
proof -
  have threw: "fst (handle_event_body env_ok closure_A message_without_sender registered_A) =
      Inl TypeError_id"
    by (simp add: handle_event_body_def message_without_sender_def on_message_body_def io_defs)
  show ?thesis
    using threw
      handler_exceptions_stay_inside [of env_ok closure_A message_without_sender registered_A
        TypeError_id
        "[(0, message_without_sender),
          (0, StartCommand \<lparr>msg_from = Some 7, msg_chat = Some 5, msg_text = Some ''/start''\<rparr>)]"]
    by simp
qed

section \<open>Stopping everything\<close>

lemma stop_one:
  "tryCatch (stopPolling env i) (\<lambda>error. console_error p (Some error)) s =
     (Inr (), s\<lparr>tick := Suc (tick s),
                 trace := trace s @ (StopPolling i, faults env (tick s) = None) #
                   (case faults env (tick s) of
                      None \<Rightarrow> []
                    | Some m \<Rightarrow> [(ConsoleError p (Some (JsError m)), True)])\<rparr>)"
  by (cases "faults env (tick s)")
     (simp_all add: tryCatch_def stopPolling_def ext_call_def console_error_def modify_def)

lemma stop_each_fst: "fst (stop_each env es s) = Inr ()"
proof (induction es arbitrary: s)
  case Nil
  show ?case by (simp add: ret_def)
next
  case (Cons e es)
  obtain botId r where e: "e = (botId, r)" by (cases e)
  show ?case
    unfolding e stop_each.simps
    by (simp add: andThen_def deref_def gets_def stop_one Cons.IH)
qed

lemma stop_each_keeps:
  "active_timers (snd (stop_each env es s)) = active_timers s \<and>
   botInfos (snd (stop_each env es s)) = botInfos s"
proof (induction es arbitrary: s)
  case Nil
  show ?case by (simp add: ret_def)
next
  case (Cons e es)
  obtain botId r where e: "e = (botId, r)" by (cases e)
  show ?case
    unfolding e stop_each.simps
    by (simp add: andThen_def deref_def gets_def stop_one Cons.IH)
qed

lemma stop_each_trace:
  "\<exists>new. trace (snd (stop_each env es s)) = trace s @ new \<and>
     (\<forall>(botId, r) \<in> set es. \<exists>ok. (StopPolling (bi_instance (botInfos s r)), ok) \<in> set new)"
proof (induction es arbitrary: s)
  case Nil
  show ?case by (simp add: ret_def)
next
  case (Cons e es)
  obtain botId r where e: "e = (botId, r)" by (cases e)
  let ?i = "bi_instance (botInfos s r)"
  let ?p = "text_stop_error botId"
  let ?one = "(StopPolling ?i, faults env (tick s) = None) #
     (case faults env (tick s) of None \<Rightarrow> [] | Some m \<Rightarrow> [(ConsoleError ?p (Some (JsError m)), True)])"
  let ?s1 = "s\<lparr>tick := Suc (tick s), trace := trace s @ ?one\<rparr>"
  have step: "stop_each env (e # es) s = stop_each env es ?s1"
    unfolding e stop_each.simps
    by (simp add: andThen_def deref_def gets_def stop_one)
  obtain new where new:
    "trace (snd (stop_each env es ?s1)) = trace ?s1 @ new"
    "\<forall>(botId, r) \<in> set es. \<exists>ok. (StopPolling (bi_instance (botInfos ?s1 r)), ok) \<in> set new"
    using Cons.IH [of ?s1] by blast
  have "trace (snd (stop_each env (e # es) s)) = trace s @ (?one @ new)"
    by (simp add: step new(1))
  moreover have "\<forall>(botId, r) \<in> set (e # es).
      \<exists>ok. (StopPolling (bi_instance (botInfos s r)), ok) \<in> set (?one @ new)"
    using new(2) by (auto simp: e)
  ultimately show ?case by blast
qed

lemma stopAllBots_eq:
  "stopAllBots env s =
     (Inr (), (snd (stop_each env (bots s) (stopAll_begin s)))
        \<lparr>bots := [], botTokenMap := [],
         trace := trace (snd (stop_each env (bots s) (stopAll_begin s))) @
                    [(ConsoleLog (emoji_tick @ '' All bots stopped''), True)]\<rparr>)"
proof -
  have "stopAllBots env s =
      andThen (stop_each env (bots s)) (\<lambda>_.
        andThen (modify (\<lambda>s. s\<lparr>bots := []\<rparr>)) (\<lambda>_.
        andThen (modify (\<lambda>s. s\<lparr>botTokenMap := []\<rparr>)) (\<lambda>_.
        console_log (emoji_tick @ '' All bots stopped'')))) (stopAll_begin s)"
    unfolding stopAllBots_def
    by (cases "recoveryInterval s")
       (simp_all add: step clearInterval_def stopAll_begin_def Let_def modify_def)
  also have "\<dots> = (Inr (), (snd (stop_each env (bots s) (stopAll_begin s)))
        \<lparr>bots := [], botTokenMap := [],
         trace := trace (snd (stop_each env (bots s) (stopAll_begin s))) @
                    [(ConsoleLog (emoji_tick @ '' All bots stopped''), True)]\<rparr>)"
    by (simp add: andThen_unit stop_each_fst step console_log_def modify_def)
  finally show ?thesis .
qed

text \<open>
  Claim C8.  \<open>stopAllBots\<close> returns normally whichever \<open>stopPolling\<close> calls fail, and
  afterwards the registry is empty: the count is 0 and both Maps are empty.  When a
  recovery interval is set, clearing it is the first thing done and its timer is removed
  from the active ones; and every instance of the registry received its \<open>stopPolling\<close> call, whether
  the calls before it failed or not.
\<close>

theorem stopAllBots_clears:
  "fst (stopAllBots env s) = Inr () \<and>
   getActiveBotCount (snd (stopAllBots env s)) = 0 \<and>
   bots (snd (stopAllBots env s)) = [] \<and>
   botTokenMap (snd (stopAllBots env s)) = [] \<and>
   (\<forall>t. recoveryInterval s = Some t \<longrightarrow>
      t \<notin> set (active_timers (snd (stopAllBots env s))) \<and>
      active_timers (snd (stopAllBots env s)) = removeAll t (active_timers s) \<and>
      (\<exists>rest. new_trace s (snd (stopAllBots env s)) = (ClearInterval t, True) # rest)) \<and>
   (\<forall>(botId, r) \<in> set (bots s).
      \<exists>ok. (StopPolling (bi_instance (botInfos s r)), ok) \<in> set (new_trace s (snd (stopAllBots env s))))"
proof -
  define s1 where "s1 = (case recoveryInterval s of None \<Rightarrow> s | Some t \<Rightarrow> snd (clearInterval t s))"
  define s2 where "s2 = stopAll_begin s"
  define s3 where "s3 = snd (stop_each env (bots s) s2)"
  have s2_eq: "s2 = s1\<lparr>trace := trace s1 @ [(ConsoleLog ''Stopping all bots...'', True)]\<rparr>"
    by (simp add: s2_def s1_def stopAll_begin_def Let_def)
  have s1_fields: "bots s1 = bots s" "botInfos s1 = botInfos s"
    by (simp_all add: s1_def clearInterval_def modify_def split: option.splits)
  have s1_timer: "recoveryInterval s = Some t \<Longrightarrow>
      t \<notin> set (active_timers s1) \<and> active_timers s1 = removeAll t (active_timers s) \<and>
      trace s1 = trace s @ [(ClearInterval t, True)]" for t
    by (simp add: s1_def clearInterval_def modify_def)
  have s1_trace: "\<exists>pre. trace s1 = trace s @ pre"
    by (simp add: s1_def clearInterval_def modify_def split: option.splits)
  have fin: "stopAllBots env s =
      (Inr (), s3\<lparr>bots := [], botTokenMap := [],
                  trace := trace s3 @ [(ConsoleLog (emoji_tick @ '' All bots stopped''), True)]\<rparr>)"
    by (simp add: stopAllBots_eq s3_def s2_def)
  obtain new where new: "trace s3 = trace s2 @ new"
    "\<forall>(botId, r) \<in> set (bots s). \<exists>ok. (StopPolling (bi_instance (botInfos s2 r)), ok) \<in> set new"
    using stop_each_trace [of env "bots s" s2] by (auto simp: s3_def)
  obtain pre where pre: "trace s1 = trace s @ pre"
    using s1_trace by blast
  have timers: "active_timers s3 = active_timers s1"
    using stop_each_keeps [of env "bots s" s2] by (simp add: s3_def s2_eq)
  have tr: "new_trace s (snd (stopAllBots env s)) =
      pre @ (ConsoleLog ''Stopping all bots...'', True) # new @
        [(ConsoleLog (emoji_tick @ '' All bots stopped''), True)]"
    by (simp add: fin new_trace_def new(1) s2_eq pre)
  have stops: "\<forall>(botId, r) \<in> set (bots s).
      \<exists>ok. (StopPolling (bi_instance (botInfos s r)), ok) \<in> set (new_trace s (snd (stopAllBots env s)))"
    using new(2) by (auto simp: tr s2_eq s1_fields)
  have cancel: "\<forall>t. recoveryInterval s = Some t \<longrightarrow>
      t \<notin> set (active_timers (snd (stopAllBots env s))) \<and>
      active_timers (snd (stopAllBots env s)) = removeAll t (active_timers s) \<and>
      (\<exists>rest. new_trace s (snd (stopAllBots env s)) = (ClearInterval t, True) # rest)"
  proof (intro allI impI)
    fix t assume t: "recoveryInterval s = Some t"
    from s1_timer [OF t] pre have "pre = [(ClearInterval t, True)]" by simp
    with s1_timer [OF t] show "t \<notin> set (active_timers (snd (stopAllBots env s))) \<and>
      active_timers (snd (stopAllBots env s)) = removeAll t (active_timers s) \<and>
      (\<exists>rest. new_trace s (snd (stopAllBots env s)) = (ClearInterval t, True) # rest)"
      by (simp add: tr) (simp add: fin timers)
  qed
  show ?thesis
    using stops cancel by (simp add: fin getActiveBotCount_def)
qed

lemma monitored_A_eq:
  "monitored_A = registered_A\<lparr>next_timer := Suc 0, active_timers := [0], recoveryInterval := Some 0,
     trace := trace registered_A @ [(SetInterval 0, True)]\<rparr>"
  by (simp add: monitored_A_def startRecoveryMonitor_def io_defs registered_A_eq new_BotManager_def)

theorem stopAllBots_clears_witness:
  "recoveryInterval monitored_A = Some 0 \<and>
   (''A'', 0) \<in> set (bots monitored_A) \<and>
   faults (env_failing 2) (tick monitored_A) \<noteq> None \<and>
   fst (stopAllBots (env_failing 2) monitored_A) = Inr () \<and>
   getActiveBotCount (snd (stopAllBots (env_failing 2) monitored_A)) = 0 \<and>
   active_timers (snd (stopAllBots (env_failing 2) monitored_A)) = []"
proof -
  have interval: "recoveryInterval monitored_A = Some 0"
    by (simp add: monitored_A_eq)
  have entry: "(''A'', 0) \<in> set (bots monitored_A)"
    by (simp add: monitored_A_eq registered_A_eq)
  have fails: "faults (env_failing 2) (tick monitored_A) \<noteq> None"
    by (simp add: monitored_A_eq registered_A_eq env_failing_def)
  have timers: "active_timers monitored_A = [0]"
    by (simp add: monitored_A_eq)
  show ?thesis
    using interval entry fails timers stopAllBots_clears [of "env_failing 2" monitored_A]
    by simp
qed

section \<open>An add whose identity check fails\<close>

lemma addBot_getMe_fails:
  assumes "faults env (tick s) = None" and "faults env (Suc (tick s)) = Some m"
  shows "addBot env botId token channelId metadata status ownerId s =
    ((case faults env (Suc (Suc (tick s))) of None \<Rightarrow> Inr None | Some m' \<Rightarrow> Inl (JsError m')),
     s\<lparr>next_inst := Suc (next_inst s), tick := Suc (Suc (Suc (tick s))),
       trace := trace s @
         [(NewTelegramBot (next_inst s) token, True),
          (GetMe (next_inst s), False),
          (ConsoleError (text_add_error botId) (Some (JsError (text_invalid_token (JsError m)))), True),
          (SendAlert ''error'' (text_add_failed botId (JsError (text_invalid_token (JsError m)))),
           faults env (Suc (Suc (tick s))) = None)]\<rparr>)"
  using assms
  by (simp add: addBot_def new_TelegramBot_def io_defs split: option.splits)

lemma polling_instances_append:
  "polling_instances (xs @ ys) = fold polling_step ys (polling_instances xs)"
  by (simp add: polling_instances_def)

text \<open>
  Claim C2, amended.  When the constructor returns and \<open>getMe\<close> throws, the outbound calls
  of \<open>addBot\<close> are the construction, the failed \<open>getMe\<close>, one \<open>console.error\<close> line and one
  alert of type \<open>error\<close> with the text \<open>Failed to initialize bot <botId>: Bot token invalid
  or revoked: <cause>\<close>, which names the identifier and not the token; when the alert call
  returns, \<open>addBot\<close> returns \<open>null\<close>; and nothing is registered: both Maps are as before, the
  count is unchanged, and \<open>getBotInfo\<close> returns for every identifier what it returned
  before the call, so none for the identifier of the call when that was not registered.
\<close>

theorem failed_add_registers_nothing:
  assumes "faults env (tick s) = None" and "faults env (Suc (tick s)) = Some m"
  shows "new_trace s (snd (addBot env botId token channelId metadata status ownerId s)) =
           [(NewTelegramBot (next_inst s) token, True),
            (GetMe (next_inst s), False),
            (ConsoleError (text_add_error botId) (Some (JsError (text_invalid_token (JsError m)))), True),
            (SendAlert ''error'' (text_add_failed botId (JsError (text_invalid_token (JsError m)))),
             faults env (Suc (Suc (tick s))) = None)] \<and>
         (faults env (Suc (Suc (tick s))) = None \<longrightarrow>
            fst (addBot env botId token channelId metadata status ownerId s) = Inr None) \<and>
         bots (snd (addBot env botId token channelId metadata status ownerId s)) = bots s \<and>
         botTokenMap (snd (addBot env botId token channelId metadata status ownerId s)) = botTokenMap s \<and>
         getActiveBotCount (snd (addBot env botId token channelId metadata status ownerId s)) =
           getActiveBotCount s \<and>
         getBotInfo (snd (addBot env botId token channelId metadata status ownerId s)) b =
           getBotInfo s b \<and>
         (map_of (bots s) botId = None \<longrightarrow>
            getBotInfo (snd (addBot env botId token channelId metadata status ownerId s)) botId = None)"
  by (simp add: addBot_getMe_fails [OF assms] getActiveBotCount_def getBotInfo_def new_trace_def)

theorem failed_add_registers_nothing_witness:
  "faults (env_failing 1) (tick new_BotManager) = None \<and>
   faults (env_failing 1) (Suc (tick new_BotManager)) = Some ''ETELEGRAM: 401 Unauthorized'' \<and>
   new_trace new_BotManager
       (snd (addBot (env_failing 1) ''A'' ''tokA'' ''@channel'' tree_docs ''approved'' None new_BotManager)) =
     [(NewTelegramBot 0 ''tokA'', True),
      (GetMe 0, False),
      (ConsoleError (emoji_cross @ '' Error adding bot A:'')
         (Some (JsError ''Bot token invalid or revoked: ETELEGRAM: 401 Unauthorized'')), True),
      (SendAlert ''error''
         ''Failed to initialize bot A: Bot token invalid or revoked: ETELEGRAM: 401 Unauthorized'', True)] \<and>
   fst (addBot (env_failing 1) ''A'' ''tokA'' ''@channel'' tree_docs ''approved'' None new_BotManager) = Inr None \<and>
   getActiveBotCount (snd (addBot (env_failing 1) ''A'' ''tokA'' ''@channel'' tree_docs ''approved'' None new_BotManager)) = 0 \<and>
   getBotInfo (snd (addBot (env_failing 1) ''A'' ''tokA'' ''@channel'' tree_docs ''approved'' None new_BotManager)) ''A'' = None"
proof -
  have ok: "faults (env_failing 1) (tick new_BotManager) = None"
    and fails: "faults (env_failing 1) (Suc (tick new_BotManager)) = Some ''ETELEGRAM: 401 Unauthorized''"
    and alert: "faults (env_failing 1) (Suc (Suc (tick new_BotManager))) = None"
    and empty: "getBotInfo new_BotManager ''A'' = None" "getActiveBotCount new_BotManager = 0"
      "next_inst new_BotManager = 0"
    by (simp_all add: new_BotManager_def env_failing_def env_ok_def getActiveBotCount_def getBotInfo_def)
  have texts: "text_add_error ''A'' = emoji_cross @ '' Error adding bot A:''"
    "text_invalid_token (JsError ''ETELEGRAM: 401 Unauthorized'') =
       ''Bot token invalid or revoked: ETELEGRAM: 401 Unauthorized''"
    "text_add_failed ''A'' (JsError ''Bot token invalid or revoked: ETELEGRAM: 401 Unauthorized'') =
       ''Failed to initialize bot A: Bot token invalid or revoked: ETELEGRAM: 401 Unauthorized''"
    by (simp_all add: text_add_error_def text_invalid_token_def text_add_failed_def)
  show ?thesis
    using ok fails alert empty texts
      failed_add_registers_nothing [OF ok fails, of "''A''" "''tokA''" "''@channel''" tree_docs "''approved''" None]
    by simp
qed

text \<open>
  Claim C2 as stated fails in two ways.  Where the identifier is registered already, the
  runtime of the earlier, successful add stays, and \<open>getBotInfo\<close> returns it after the
  failed add.  Where the alert call fails too, \<open>addBot\<close> returns no failure value: the
  exception of the alert leaves it.
\<close>

theorem failed_add_keeps_old_runtime_or_throws:
  "(GetMe 1, False) \<in> set (trace (snd (addBot (env_failing 3) ''A'' ''tokB'' ''@channel'' tree_docs ''approved'' None registered_A))) \<and>
   getBotInfo (snd (addBot (env_failing 3) ''A'' ''tokB'' ''@channel'' tree_docs ''approved'' None registered_A)) ''A'' \<noteq> None \<and>
   (GetMe 1, False) \<in> set (trace (snd (addBot (env_down 3) ''B'' ''tokB'' ''@channel'' tree_docs ''approved'' None registered_A))) \<and>
   fst (addBot (env_down 3) ''B'' ''tokB'' ''@channel'' tree_docs ''approved'' None registered_A) =
     Inl (JsError ''ETELEGRAM: 401 Unauthorized'')"
proof -
  have ok: "faults (env_failing 3) (tick registered_A) = None"
    and fails: "faults (env_failing 3) (Suc (tick registered_A)) = Some ''ETELEGRAM: 401 Unauthorized''"
    by (simp_all add: registered_A_eq env_failing_def env_ok_def)
  have readd: "(GetMe 1, False) \<in> set (trace (snd (addBot (env_failing 3) ''A'' ''tokB'' ''@channel'' tree_docs ''approved'' None registered_A))) \<and>
   getBotInfo (snd (addBot (env_failing 3) ''A'' ''tokB'' ''@channel'' tree_docs ''approved'' None registered_A)) ''A'' \<noteq> None"
    by (simp add: addBot_getMe_fails [OF ok fails] getBotInfo_def) (simp add: registered_A_eq)
  have ok': "faults (env_down 3) (tick registered_A) = None"
    and fails': "faults (env_down 3) (Suc (tick registered_A)) = Some ''ETELEGRAM: 401 Unauthorized''"
    and alert': "faults (env_down 3) (Suc (Suc (tick registered_A))) = Some ''ETELEGRAM: 401 Unauthorized''"
    by (simp_all add: registered_A_eq env_down_def env_ok_def)
  have throws: "(GetMe 1, False) \<in> set (trace (snd (addBot (env_down 3) ''B'' ''tokB'' ''@channel'' tree_docs ''approved'' None registered_A))) \<and>
   fst (addBot (env_down 3) ''B'' ''tokB'' ''@channel'' tree_docs ''approved'' None registered_A) =
     Inl (JsError ''ETELEGRAM: 401 Unauthorized'')"
    by (simp add: addBot_getMe_fails [OF ok' fails'] alert') (simp add: registered_A_eq)
  from readd throws show ?thesis by simp
qed

text \<open>
  Claim C10.  When the constructor returns and \<open>getMe\<close> throws, the instance that \<open>addBot\<close>
  constructed is among the polling ones afterwards: no \<open>stopPolling\<close> for it is among the
  calls of this \<open>addBot\<close>, no listener is attached, the registry is as before, and so the
  identifier, if it was not registered, is still not registered.
\<close>

theorem failed_add_leaves_polling:
  assumes "faults env (tick s) = None" and "faults env (Suc (tick s)) = Some m"
  shows "next_inst s \<in> set (polling_instances (trace (snd (addBot env botId token channelId metadata status ownerId s)))) \<and>
         (StopPolling (next_inst s), ok) \<notin>
            set (new_trace s (snd (addBot env botId token channelId metadata status ownerId s))) \<and>
         handlers (snd (addBot env botId token channelId metadata status ownerId s)) = handlers s \<and>
         bots (snd (addBot env botId token channelId metadata status ownerId s)) = bots s \<and>
         (map_of (bots s) botId = None \<longrightarrow>
            getBotInfo (snd (addBot env botId token channelId metadata status ownerId s)) botId = None)"
  by (simp add: addBot_getMe_fails [OF assms] polling_instances_append polling_step_def
      new_trace_def getBotInfo_def)

theorem failed_add_leaves_polling_witness:
  "faults (env_failing 1) (tick new_BotManager) = None \<and>
   faults (env_failing 1) (Suc (tick new_BotManager)) = Some ''ETELEGRAM: 401 Unauthorized'' \<and>
   0 \<in> set (polling_instances (trace (snd (addBot (env_failing 1) ''A'' ''tokA'' ''@channel'' tree_docs ''approved'' None new_BotManager)))) \<and>
   (StopPolling 0, True) \<notin> set (new_trace new_BotManager (snd (addBot (env_failing 1) ''A'' ''tokA'' ''@channel'' tree_docs ''approved'' None new_BotManager))) \<and>
   getBotInfo (snd (addBot (env_failing 1) ''A'' ''tokA'' ''@channel'' tree_docs ''approved'' None new_BotManager)) ''A'' = None"
proof -
  have ok: "faults (env_failing 1) (tick new_BotManager) = None"
    and fails: "faults (env_failing 1) (Suc (tick new_BotManager)) = Some ''ETELEGRAM: 401 Unauthorized''"
    and empty: "map_of (bots new_BotManager) ''A'' = None" "next_inst new_BotManager = 0"
    by (simp_all add: new_BotManager_def env_failing_def env_ok_def)
  show ?thesis
    using ok fails empty
      failed_add_leaves_polling [OF ok fails, where botId = "''A''" and token = "''tokA''" and ok = True
        and channelId = "''@channel''" and metadata = tree_docs and status = "''approved''" and ownerId = None]
    by simp
qed

section \<open>The two Maps of the registry\<close>

lemma addBot_registry:
  "(bots (snd (addBot env botId token channelId metadata status ownerId s)) = bots s \<and>
    botTokenMap (snd (addBot env botId token channelId metadata status ownerId s)) = botTokenMap s \<and>
    botInfos (snd (addBot env botId token channelId metadata status ownerId s)) = botInfos s \<and>
    next_inst s \<le> next_inst (snd (addBot env botId token channelId metadata status ownerId s))) \<or>
   (bots (snd (addBot env botId token channelId metadata status ownerId s)) =
      AList.update botId (next_inst s) (bots s) \<and>
    botTokenMap (snd (addBot env botId token channelId metadata status ownerId s)) =
      AList.update token botId (botTokenMap s) \<and>
    botInfos (snd (addBot env botId token channelId metadata status ownerId s)) =
      (botInfos s)(next_inst s :=
         make_botInfo (next_inst s) botId token channelId metadata status ownerId
           (clock env (Suc (Suc (tick s))))) \<and>
    next_inst (snd (addBot env botId token channelId metadata status ownerId s)) = Suc (next_inst s))"
  by (cases "faults env (tick s)"; cases "faults env (Suc (tick s))"; cases "getAdminUserId env";
      cases "faults env (Suc (Suc (tick s)))")
     (simp_all add: addBot_def new_TelegramBot_def setupBotHandlers_def io_defs)

lemma stopBot_registry:
  "bots (snd (stopBot env botId s)) = AList.delete botId (bots s) \<and>
   botTokenMap (snd (stopBot env botId s)) =
     (case getBotInfo s botId of
        None \<Rightarrow> botTokenMap s
      | Some info \<Rightarrow> AList.delete (bi_token info) (botTokenMap s)) \<and>
   botInfos (snd (stopBot env botId s)) = botInfos s \<and>
   next_inst (snd (stopBot env botId s)) = next_inst s"
proof (cases "map_of (bots s) botId")
  case None
  then have "botId \<notin> fst ` set (bots s)"
    by (simp add: map_of_eq_None_iff)
  with None show ?thesis
    by (simp add: stopBot_def getBotInfo_def io_defs)
next
  case (Some r)
  then show ?thesis
    by (cases "faults env (tick s)") (simp_all add: stopBot_def getBotInfo_def io_defs)
qed

lemma set_update_subset: "set (AList.update k v al) \<subseteq> insert (k, v) (set al)"
  by (induction al) auto

lemma set_delete_eq: "set (AList.delete k al) = {x \<in> set al. fst x \<noteq> k}"
  by (auto simp: AList.delete_eq)

lemma stopAllBots_registry:
  "bots (snd (stopAllBots env s)) = [] \<and> botTokenMap (snd (stopAllBots env s)) = []"
  by (simp add: stopAllBots_eq)

lemma registry_inv_addBot:
  assumes inv: "registry_inv s" and fresh: "map_of (bots s) botId = None"
  shows "registry_inv (snd (addBot env botId token channelId metadata status ownerId s))"
proof -
  let ?s' = "snd (addBot env botId token channelId metadata status ownerId s)"
  let ?n = "next_inst s"
  let ?info = "make_botInfo ?n botId token channelId metadata status ownerId (clock env (Suc (Suc (tick s))))"
  from addBot_registry [of env botId token channelId metadata status ownerId s]
  consider
    (same) "bots ?s' = bots s" "botTokenMap ?s' = botTokenMap s" "botInfos ?s' = botInfos s"
      "next_inst s \<le> next_inst ?s'"
  | (added) "bots ?s' = AList.update botId ?n (bots s)"
      "botTokenMap ?s' = AList.update token botId (botTokenMap s)"
      "botInfos ?s' = (botInfos s)(?n := ?info)" "next_inst ?s' = Suc ?n"
    by blast
  then show ?thesis
  proof cases
    case same
    with inv show ?thesis
      by (fastforce simp: registry_inv_def)
  next
    case added
    have refs: "r < ?n" if "(b, r) \<in> set (bots s)" for b r
      using inv that by (auto simp: registry_inv_def)
    have tokens: "\<exists>r. map_of (bots ?s') b = Some r \<and> bi_token (botInfos ?s' r) = tok"
      if mem: "(tok, b) \<in> set (botTokenMap ?s')" for tok b
    proof (cases "(tok, b) = (token, botId)")
      case True
      then show ?thesis
        by (simp add: added update_conv' make_botInfo_def)
    next
      case False
      with mem set_update_subset [of token botId "botTokenMap s"]
      have old: "(tok, b) \<in> set (botTokenMap s)"
        by (auto simp: added)
      with inv obtain r where r: "map_of (bots s) b = Some r" "bi_token (botInfos s r) = tok"
        by (auto simp: registry_inv_def)
      from r(1) fresh have ne: "b \<noteq> botId" by auto
      from r(1) have "r < ?n" using refs map_of_SomeD by fast
      with r ne show ?thesis
        by (simp add: added update_conv')
    qed
    have bound: "r < next_inst ?s'" if "(b, r) \<in> set (bots ?s')" for b r
    proof -
      from that set_update_subset [of botId ?n "bots s"]
      have "(b, r) = (botId, ?n) \<or> (b, r) \<in> set (bots s)"
        by (auto simp: added)
      then show ?thesis
      proof
        assume "(b, r) = (botId, ?n)"
        then show ?thesis by (simp add: added)
      next
        assume "(b, r) \<in> set (bots s)"
        from refs [OF this] show ?thesis by (simp add: added)
      qed
    qed
    show ?thesis
      unfolding registry_inv_def using tokens bound by blast
  qed
qed

lemma registry_inv_stopBot:
  assumes inv: "registry_inv s"
  shows "registry_inv (snd (stopBot env botId s))"
proof -
  let ?s' = "snd (stopBot env botId s)"
  note eff = stopBot_registry [of env botId s]
  have refs: "r < next_inst ?s'" if "(b, r) \<in> set (bots ?s')" for b r
    using inv that eff by (auto simp: registry_inv_def set_delete_eq)
  have tokens: "\<exists>r. map_of (bots ?s') b = Some r \<and> bi_token (botInfos ?s' r) = tok"
    if mem: "(tok, b) \<in> set (botTokenMap ?s')" for tok b
  proof (cases "map_of (bots s) botId")
    case None
    then have "botId \<notin> fst ` set (bots s)"
      by (simp add: map_of_eq_None_iff)
    then have "bots ?s' = bots s" "botTokenMap ?s' = botTokenMap s"
      using eff None by (simp_all add: getBotInfo_def)
    with inv mem eff show ?thesis
      by (auto simp: registry_inv_def)
  next
    case (Some r0)
    with eff have tm: "botTokenMap ?s' = AList.delete (bi_token (botInfos s r0)) (botTokenMap s)"
      by (simp add: getBotInfo_def)
    from mem have old: "(tok, b) \<in> set (botTokenMap s)" and ne: "tok \<noteq> bi_token (botInfos s r0)"
      by (auto simp: tm set_delete_eq)
    from inv old obtain r where r: "map_of (bots s) b = Some r" "bi_token (botInfos s r) = tok"
      by (auto simp: registry_inv_def)
    have "b \<noteq> botId"
      using r Some ne by auto
    with r eff show ?thesis
      by simp
  qed
  show ?thesis
    unfolding registry_inv_def using tokens refs by blast
qed

lemma registry_inv_stopAllBots: "registry_inv (snd (stopAllBots env s))"
  by (simp add: registry_inv_def stopAllBots_registry)

lemma registry_inv_run_ops:
  "registry_inv s \<Longrightarrow> adds_fresh env ops s \<Longrightarrow> registry_inv (run_ops env ops s)"
proof (induction ops arbitrary: s)
  case Nil
  then show ?case by simp
next
  case (Cons x xs)
  have "registry_inv (apply_op env x s)"
  proof (cases x)
    case (Add botId token channelId metadata status ownerId)
    with Cons.prems show ?thesis
      by (simp add: registry_inv_addBot)
  next
    case (Remove botId)
    with Cons.prems show ?thesis
      by (simp add: registry_inv_stopBot)
  next
    case StopAll
    then show ?thesis
      by (simp add: registry_inv_stopAllBots)
  qed
  with Cons show ?case by simp
qed

lemma registry_inv_live: "registry_inv s \<Longrightarrow> token_keys_live s"
  by (fastforce simp: registry_inv_def token_keys_live_def list_all_iff)

lemma registry_inv_new: "registry_inv new_BotManager"
  by (simp add: registry_inv_def new_BotManager_def)

text \<open>
  Claim C3, amended.  After every sequence of \<open>addBot\<close>, \<open>stopBot\<close> and \<open>stopAllBots\<close> from
  the constructor's state in which each \<open>addBot\<close> meets an identifier that is not
  registered at that moment, every key of the token map names an entry of \<open>bots\<close>.  The
  two Maps change together: \<open>addBot\<close> leaves both as they are or sets both, \<open>stopBot\<close>
  deletes the identifier and the token of its object, \<open>stopAllBots\<close> empties both.
\<close>

theorem token_map_follows_registry:
  "(adds_fresh env ops new_BotManager \<longrightarrow> token_keys_live (run_ops env ops new_BotManager)) \<and>
   ((bots (snd (addBot env botId token channelId metadata status ownerId s)) = bots s \<and>
     botTokenMap (snd (addBot env botId token channelId metadata status ownerId s)) = botTokenMap s) \<or>
    (bots (snd (addBot env botId token channelId metadata status ownerId s)) =
       AList.update botId (next_inst s) (bots s) \<and>
     botTokenMap (snd (addBot env botId token channelId metadata status ownerId s)) =
       AList.update token botId (botTokenMap s))) \<and>
   bots (snd (stopBot env botId s)) = AList.delete botId (bots s) \<and>
   botTokenMap (snd (stopBot env botId s)) =
     (case getBotInfo s botId of
        None \<Rightarrow> botTokenMap s
      | Some info \<Rightarrow> AList.delete (bi_token info) (botTokenMap s)) \<and>
   bots (snd (stopAllBots env s)) = [] \<and> botTokenMap (snd (stopAllBots env s)) = []"
  using registry_inv_run_ops [OF registry_inv_new, of env ops] registry_inv_live
    addBot_registry [of env botId token channelId metadata status ownerId s]
    stopBot_registry [of env botId s] stopAllBots_registry [of env s]
  by blast
lemma two_bots_fresh: "adds_fresh env_ok ops_two_bots new_BotManager"
  by (simp add: ops_two_bots_def run_defs)

theorem token_map_follows_registry_witness:
  "adds_fresh env_ok ops_two_bots new_BotManager \<and>
   token_keys_live (run_ops env_ok ops_two_bots new_BotManager)"
  using two_bots_fresh token_map_follows_registry [of env_ok ops_two_bots]
  by simp

text \<open>
  Claim C3 as stated fails when an identifier is added twice with different tokens and
  then removed: \<open>stopBot\<close> deletes the token of the second object only, and the first
  token stays in the token map with no entry in \<open>bots\<close>.
\<close>

lemma readd_result:
  "botTokenMap (run_ops env_ok ops_readd new_BotManager) = [(''tokA'', ''A'')] \<and>
   bots (run_ops env_ok ops_readd new_BotManager) = []"
  by (simp add: ops_readd_def run_defs)

theorem token_map_stale_after_readd:
  "\<not> token_keys_live (run_ops env_ok ops_readd new_BotManager)"
  by (simp add: token_keys_live_def readd_result)

section \<open>Pages out of range\<close>

lemma sendFolderMenu_returns:
  "fst (sendFolderMenu env tbot chatId metadata currentPath page s) = Inr ()"
proof -
  have inner: "fst (andThen (console_error p (Some e))
      (\<lambda>_. tryCatch (sendMessage env b ch t None) (\<lambda>e'. console_error p' (Some e'))) s') = Inr ()"
    for p e b ch t p' s'
    by (simp add: andThen_console_error tryCatch_returns console_error_returns)
  show ?thesis
    by (simp add: sendFolderMenu_def tryCatch_returns inner)
qed

lemma andThen_ret_fun: "andThen (ret x) k = k x"
  by (rule ext) (simp add: andThen_ret)

lemma total_pages_covers: "total_pages n \<le> p \<Longrightarrow> int n \<le> p * 30"
  unfolding total_pages_def ITEMS_PER_PAGE_def by linarith

lemma total_pages_pos: "0 < n \<Longrightarrow> 1 \<le> total_pages n"
  unfolding total_pages_def ITEMS_PER_PAGE_def by linarith

lemma page_slice_beyond:
  assumes "total_pages (length subs) \<le> p"
  shows "page_slice subs (Num p) = []"
proof -
  from assms have "int (length subs) \<le> p * 30"
    by (rule total_pages_covers)
  then show ?thesis
    by (simp add: page_slice_def js_slice_def relative_index_def ITEMS_PER_PAGE_def Let_def)
qed

lemma menu_keyboard_beyond:
  assumes "subs \<noteq> []" and "total_pages (length subs) \<le> p"
  shows "menu_keyboard currentPath subs (Num p) = [back_row currentPath p]"
proof -
  from assms(1) have "1 \<le> total_pages (length subs)"
    by (simp add: total_pages_pos)
  with assms(2) have "0 < p" "\<not> p < total_pages (length subs) - 1"
    by simp_all
  then show ?thesis
    by (simp add: menu_keyboard_def page_slice_beyond [OF assms(2)] button_rows.simps
        nav_buttons_def back_row_def Let_def)
qed

lemma page_slice_NaN: "page_slice subs NaN = []"
  by (simp add: page_slice_def js_slice_def relative_index_def Let_def)

lemma page_slice_minus_one: "page_slice subs (Num (- 1)) = []"
  by (simp add: page_slice_def js_slice_def relative_index_def ITEMS_PER_PAGE_def Let_def)

lemma page_slice_negative:
  assumes "p \<le> - 2"
  shows "page_slice subs (Num p) = from_end subs p"
proof -
  define a where "a = int (length subs) + 30 * p"
  have neg: "min (p * 30 + 30) (int (length subs)) = p * 30 + 30" "p * 30 + 30 < 0" "p * 30 < 0"
    using assms by linarith+
  have "page_slice subs (Num p) = take (nat (max (a + 30) 0 - max a 0)) (drop (nat (max a 0)) subs)"
    using neg
    by (simp add: page_slice_def js_slice_def relative_index_def ITEMS_PER_PAGE_def Let_def a_def
        mult.commute add.commute add.left_commute)
  also have "nat (max (a + 30) 0 - max a 0) = nat (a + 30) - nat a"
    by linarith
  also have "nat (max a 0) = nat a"
    by linarith
  also have "take (nat (a + 30) - nat a) (drop (nat a) subs) = drop (nat a) (take (nat (a + 30)) subs)"
    by (simp add: drop_take)
  finally show ?thesis
    by (simp add: from_end_def a_def)
qed

lemma menu_keyboard_NaN:
  "menu_keyboard currentPath subs NaN = (if currentPath = [] then [] else [[main_button]])"
  by (simp add: menu_keyboard_def page_slice_NaN button_rows.simps nav_buttons_def main_button_def Let_def)

lemma menu_keyboard_negative:
  assumes "subs \<noteq> []" and "p < 0"
  shows "menu_keyboard currentPath subs (Num p) =
           button_rows currentPath (page_slice subs (Num p)) 0 @ [next_row currentPath p]"
proof -
  from assms(1) have "1 \<le> total_pages (length subs)"
    by (simp add: total_pages_pos)
  with assms(2) have "\<not> 0 < p" "p < total_pages (length subs) - 1"
    by simp_all
  then show ?thesis
    by (simp add: menu_keyboard_def nav_buttons_def next_row_def main_button_def Let_def)
qed

lemma menu_title_eq:
  "menu_title currentPath subs page =
     emoji_open_folder @ '' '' @ path_display currentPath @
       (if total_pages (length subs) \<le> 1 then [] else page_info page (total_pages (length subs)))"
  by (simp add: menu_title_def path_display_def Let_def)

lemma sendFolderMenu_other_page:
  assumes "walk metadata currentPath = Some currentFolder"
    and "subs = localeSort env (subfolder_names currentFolder)"
    and "subs \<noteq> []"
    and "page \<noteq> Num 0"
    and "faults env (tick s) = None"
  shows "sendFolderMenu env tbot chatId metadata currentPath page s =
           (Inr (), s\<lparr>tick := Suc (tick s),
              trace := trace s @
                [(SendMessage tbot chatId (menu_title currentPath subs page)
                    (Some (menu_keyboard currentPath subs page)), True)]\<rparr>)"
proof -
  have "sendFolderMenu_body env tbot chatId metadata currentPath page =
      sendMessage env tbot chatId (menu_title currentPath subs page)
        (Some (menu_keyboard currentPath subs page))"
    using assms(1,3,4)
    by (simp add: sendFolderMenu_body_def assms(2) [symmetric] Let_def andThen_ret_fun)
  then show ?thesis
    using assms(5) by (simp add: sendFolderMenu_def tryCatch_def sendMessage_def ext_call_def)
qed

lemma out_of_range_not_first:
  assumes "subs \<noteq> []" and "out_of_range (length subs) page"
  shows "page \<noteq> Num 0"
proof
  assume "page = Num 0"
  with assms(2) have "total_pages (length subs) \<le> 0" by simp
  moreover from assms(1) have "1 \<le> total_pages (length subs)"
    by (simp add: total_pages_pos)
  ultimately show False by simp
qed

lemma tree_31_subs:
  "walk tree_31 [] = Some tree_31"
  "names_31 = localeSort env_ok (subfolder_names tree_31)"
  "names_31 \<noteq> []"
  by (simp_all add: tree_31_def subfolder_names_def env_ok_def comp_def names_31_def upt_rec)

lemma tree_31_facts:
  "length names_31 = 31"
  "total_pages 31 = 2"
  "take (Suc 0) names_31 = [''f1'']"
  by (simp_all add: tree_31_def subfolder_names_def env_ok_def comp_def names_31_def
      total_pages_def ITEMS_PER_PAGE_def take_map upt_rec string_of_nat.simps digit_char_def)

lemma tree_a_subs:
  "walk tree_a [] = Some tree_a"
  "[''a''] = localeSort env_ok (subfolder_names tree_a)"
  by (simp_all add: tree_a_def subfolder_names_def env_ok_def)

lemma tree_a_facts:
  "total_pages (Suc 0) = 1"
  "faults env_ok (tick new_BotManager) = None"
  by (simp_all add: tree_a_def subfolder_names_def env_ok_def total_pages_def ITEMS_PER_PAGE_def)

lemma printed_pages:
  "page_payload (Num 4) [] = ''page|4|''"
  "page_payload (Num 0) [] = ''page|0|''"
  "page_payload (Num (- 1)) [] = ''page|-1|''"
  "page_info (Num 5) 2 = '' (Page 6/2)''"
  "page_info (Num (- 2)) 2 = '' (Page -1/2)''"
  "page_info (Num (- 1)) 2 = '' (Page 0/2)''"
  "page_info NaN 2 = '' (Page NaN/2)''"
  by (simp_all add: page_payload_def page_info_def string_of_int_def string_of_nat.simps digit_char_def)

text \<open>
  Claim C5, amended.  For a folder with child folders and a page that is out of range (past
  the last page, negative, or \<open>NaN\<close>) and exact in the code's numbers (\<open>exact_page\<close>),
  \<open>sendFolderMenu\<close> does not clamp and does not throw.  When the send succeeds, one message
  is all that is sent.  Its title is the breadcrumb, followed by \<open>(Page <page + 1>/<pages>)\<close>
  only when there is more than one page.  Its button grid is: for \<open>NaN\<close>, no child button
  and the row \<open>Main\<close> off the root, so the empty grid at the root; past the last page, no
  child button and the row \<open>Back\<close> to \<open>page - 1\<close> (and \<open>Main\<close> off the root); for page \<open>-1\<close>, no
  child button and the row \<open>Next\<close> to page 0 (and \<open>Main\<close>); for a page \<open>p\<close> below \<open>-1\<close>, the
  children that \<open>slice\<close> counts from the end of the list (\<open>from_end\<close>), then the row \<open>Next\<close> to
  \<open>p + 1\<close> (and \<open>Main\<close>).
\<close>

theorem out_of_range_page_not_clamped:
  assumes "walk metadata currentPath = Some currentFolder"
    and "subs = localeSort env (subfolder_names currentFolder)"
    and "subs \<noteq> []"
    and "out_of_range (length subs) page"
    and "exact_page page"
  shows "fst (sendFolderMenu env tbot chatId metadata currentPath page s) = Inr () \<and>
         (faults env (tick s) = None \<longrightarrow>
            new_trace s (snd (sendFolderMenu env tbot chatId metadata currentPath page s)) =
              [(SendMessage tbot chatId (menu_title currentPath subs page)
                  (Some (menu_keyboard currentPath subs page)), True)]) \<and>
         menu_title currentPath subs page =
           emoji_open_folder @ '' '' @ path_display currentPath @
             (if total_pages (length subs) \<le> 1 then []
              else page_info page (total_pages (length subs))) \<and>
         (page = NaN \<longrightarrow>
            menu_keyboard currentPath subs page = (if currentPath = [] then [] else [[main_button]])) \<and>
         (\<forall>p. page = Num p \<and> 0 \<le> p \<longrightarrow>
            menu_keyboard currentPath subs page = [back_row currentPath p]) \<and>
         (page = Num (- 1) \<longrightarrow>
            menu_keyboard currentPath subs page = [next_row currentPath (- 1)]) \<and>
         (\<forall>p. page = Num p \<and> p \<le> - 2 \<longrightarrow>
            menu_keyboard currentPath subs page =
              button_rows currentPath (from_end subs p) 0 @ [next_row currentPath p])"
proof -
  have sent: "faults env (tick s) = None \<longrightarrow>
      new_trace s (snd (sendFolderMenu env tbot chatId metadata currentPath page s)) =
        [(SendMessage tbot chatId (menu_title currentPath subs page)
            (Some (menu_keyboard currentPath subs page)), True)]"
    using sendFolderMenu_other_page [OF assms(1,2,3) out_of_range_not_first [OF assms(3,4)]]
    by (simp add: new_trace_def)
  have beyond: "menu_keyboard currentPath subs page = [back_row currentPath p]"
    if "page = Num p" and "0 \<le> p" for p
    using that assms(3,4) by (simp add: menu_keyboard_beyond)
  have before: "menu_keyboard currentPath subs page = [next_row currentPath (- 1)]"
    if "page = Num (- 1)"
    using that assms(3) by (simp add: menu_keyboard_negative page_slice_minus_one button_rows.simps)
  have far: "menu_keyboard currentPath subs page =
      button_rows currentPath (from_end subs p) 0 @ [next_row currentPath p]"
    if "page = Num p" and "p \<le> - 2" for p
    using that assms(3) by (simp add: menu_keyboard_negative page_slice_negative)
  from sent beyond before far show ?thesis
    by (simp add: sendFolderMenu_returns menu_title_eq menu_keyboard_NaN)
qed

theorem out_of_range_page_not_clamped_witness:
  "walk tree_31 [] = Some tree_31 \<and>
   localeSort env_ok (subfolder_names tree_31) = names_31 \<and>
   length names_31 = 31 \<and>
   out_of_range 31 (Num 5) \<and> exact_page (Num 5) \<and>
   out_of_range 31 (Num (- 1)) \<and> exact_page (Num (- 1)) \<and>
   out_of_range 31 (Num (- 2)) \<and> exact_page (Num (- 2)) \<and>
   out_of_range 31 NaN \<and> exact_page NaN \<and>
   fst (sendFolderMenu env_ok 0 9 tree_31 [] (Num 5) new_BotManager) = Inr () \<and>
   new_trace new_BotManager (snd (sendFolderMenu env_ok 0 9 tree_31 [] (Num 5) new_BotManager)) =
     [(SendMessage 0 9 (emoji_open_folder @ '' Main Menu (Page 6/2)'')
         (Some [[\<lparr>button_text = emoji_left @ '' Back'', callback_data = ''page|4|''\<rparr>]]), True)] \<and>
   new_trace new_BotManager (snd (sendFolderMenu env_ok 0 9 tree_31 [] (Num (- 1)) new_BotManager)) =
     [(SendMessage 0 9 (emoji_open_folder @ '' Main Menu (Page 0/2)'')
         (Some [[\<lparr>button_text = emoji_right @ '' Next'', callback_data = ''page|0|''\<rparr>]]), True)] \<and>
   new_trace new_BotManager (snd (sendFolderMenu env_ok 0 9 tree_31 [] (Num (- 2)) new_BotManager)) =
     [(SendMessage 0 9 (emoji_open_folder @ '' Main Menu (Page -1/2)'')
         (Some [[\<lparr>button_text = emoji_folder @ '' f1'', callback_data = ''folder|f1''\<rparr>],
                [\<lparr>button_text = emoji_right @ '' Next'', callback_data = ''page|-1|''\<rparr>]]), True)] \<and>
   new_trace new_BotManager (snd (sendFolderMenu env_ok 0 9 tree_31 [] NaN new_BotManager)) =
     [(SendMessage 0 9 (emoji_open_folder @ '' Main Menu (Page NaN/2)'') (Some []), True)]"
proof -
  have range: "out_of_range (length names_31) (Num 5)" "exact_page (Num 5)"
    "out_of_range (length names_31) (Num (- 2))" "exact_page (Num (- 2))"
    "out_of_range (length names_31) NaN" "exact_page NaN"
    "out_of_range (length names_31) (Num (- 1))" "exact_page (Num (- 1))"
    by (simp_all add: tree_31_facts)
  have ok: "faults env_ok (tick new_BotManager) = None"
    by (simp add: env_ok_def)
  have rows: "back_row [] 5 = [\<lparr>button_text = emoji_left @ '' Back'', callback_data = ''page|4|''\<rparr>]"
    "next_row [] (- 2) = [\<lparr>button_text = emoji_right @ '' Next'', callback_data = ''page|-1|''\<rparr>]"
    "next_row [] (- 1) = [\<lparr>button_text = emoji_right @ '' Next'', callback_data = ''page|0|''\<rparr>]"
    "button_rows [] (from_end names_31 (- 2)) 0 =
       [[\<lparr>button_text = emoji_folder @ '' f1'', callback_data = ''folder|f1''\<rparr>]]"
    by (simp_all add: back_row_def next_row_def printed_pages from_end_def tree_31_facts
        button_rows.simps slice_nat_def js_slice_def relative_index_def folder_button_def
        folder_payload_def Let_def)
  show ?thesis
    using range ok rows
      out_of_range_page_not_clamped [OF tree_31_subs range(1,2), of 0 9 new_BotManager]
      out_of_range_page_not_clamped [OF tree_31_subs range(3,4), of 0 9 new_BotManager]
      out_of_range_page_not_clamped [OF tree_31_subs range(5,6), of 0 9 new_BotManager]
      out_of_range_page_not_clamped [OF tree_31_subs range(7,8), of 0 9 new_BotManager]
    by (simp add: tree_31_subs(1) tree_31_subs(2) [symmetric] tree_31_facts path_display_def printed_pages)
qed

text \<open>
  Claim C5 as stated fails for the pages 5, \<open>-1\<close> and \<open>NaN\<close> of a root with the one child
  \<open>a\<close>, whose only valid page is page 0 with the button of \<open>a\<close>: the message for page 5 has
  the single button \<open>Back\<close> to page 4, the one for page \<open>-1\<close> the single button \<open>Next\<close> to
  page 0, and the one for \<open>NaN\<close> has no button at all; none has the button of \<open>a\<close>.
\<close>

theorem out_of_range_pages_render_no_child:
  "new_trace new_BotManager (snd (sendFolderMenu env_ok 0 9 tree_a [] (Num 0) new_BotManager)) =
     [(SendMessage 0 9 (emoji_open_folder @ '' Main Menu'')
         (Some [[\<lparr>button_text = emoji_folder @ '' a'', callback_data = ''folder|a''\<rparr>]]), True)] \<and>
   new_trace new_BotManager (snd (sendFolderMenu env_ok 0 9 tree_a [] (Num 5) new_BotManager)) =
     [(SendMessage 0 9 (emoji_open_folder @ '' Main Menu'')
         (Some [[\<lparr>button_text = emoji_left @ '' Back'', callback_data = ''page|4|''\<rparr>]]), True)] \<and>
   new_trace new_BotManager (snd (sendFolderMenu env_ok 0 9 tree_a [] (Num (- 1)) new_BotManager)) =
     [(SendMessage 0 9 (emoji_open_folder @ '' Main Menu'')
         (Some [[\<lparr>button_text = emoji_right @ '' Next'', callback_data = ''page|0|''\<rparr>]]), True)] \<and>
   new_trace new_BotManager (snd (sendFolderMenu env_ok 0 9 tree_a [] NaN new_BotManager)) =
     [(SendMessage 0 9 (emoji_open_folder @ '' Main Menu'') (Some []), True)]"
proof -
  have ne: "[''a''] \<noteq> []" by simp
  have title: "menu_title [] [''a''] page = emoji_open_folder @ '' Main Menu''" for page
    by (simp add: menu_title_eq tree_a_facts path_display_def)
  have first: "menu_keyboard [] [''a''] (Num 0) =
      [[\<lparr>button_text = emoji_folder @ '' a'', callback_data = ''folder|a''\<rparr>]]"
    by (simp add: menu_keyboard_def page_slice_def js_slice_def relative_index_def ITEMS_PER_PAGE_def
        button_rows.simps slice_nat_def nav_buttons_def total_pages_def Let_def folder_button_def
        folder_payload_def)
  have past: "menu_keyboard [] [''a''] (Num 5) =
      [[\<lparr>button_text = emoji_left @ '' Back'', callback_data = ''page|4|''\<rparr>]]"
    by (simp add: menu_keyboard_beyond tree_a_facts back_row_def printed_pages)
  have before: "menu_keyboard [] [''a''] (Num (- 1)) =
      [[\<lparr>button_text = emoji_right @ '' Next'', callback_data = ''page|0|''\<rparr>]]"
    by (simp add: menu_keyboard_negative page_slice_minus_one button_rows.simps next_row_def printed_pages)
  have nan: "menu_keyboard [] [''a''] NaN = []"
    by (simp add: menu_keyboard_NaN)
  have no_files: "files tree_a = []"
    by (simp add: tree_a_def)
  have "sendFolderMenu_body env_ok 0 9 tree_a [] (Num 0) =
      sendMessage env_ok 0 9 (menu_title [] [''a''] (Num 0)) (Some (menu_keyboard [] [''a''] (Num 0)))"
    by (simp add: sendFolderMenu_body_def tree_a_subs(1) tree_a_subs(2) [symmetric] no_files Let_def
        andThen_ret_fun)
  then have zero: "sendFolderMenu env_ok 0 9 tree_a [] (Num 0) new_BotManager =
      (Inr (), new_BotManager\<lparr>tick := Suc (tick new_BotManager),
         trace := trace new_BotManager @
           [(SendMessage 0 9 (menu_title [] [''a''] (Num 0)) (Some (menu_keyboard [] [''a''] (Num 0))), True)]\<rparr>)"
    by (simp add: sendFolderMenu_def tryCatch_def sendMessage_def ext_call_def tree_a_facts(2))
  show ?thesis
    using zero
      sendFolderMenu_other_page [OF tree_a_subs ne _ tree_a_facts(2), of "Num 5" 0 9]
      sendFolderMenu_other_page [OF tree_a_subs ne _ tree_a_facts(2), of "Num (- 1)" 0 9]
      sendFolderMenu_other_page [OF tree_a_subs ne _ tree_a_facts(2), of NaN 0 9]
    by (simp add: new_trace_def title first past before nan)
qed

section \<open>Administrator messages\<close>

text \<open>
  Claim C7, amended.  \<open>sendAdminMessage\<close> throws \<open>Bot not found\<close>, sending nothing, when
  the identifier is not registered; otherwise it passes the text through
  \<open>security.sanitizeInput\<close> and, when the send succeeds, the recipient gets the sanitized
  text after the administrator header.
\<close>

theorem sendAdminMessage_sanitizes:
  "(getBotInfo s botId = None \<longrightarrow>
      sendAdminMessage env botId ownerId msg s =
        (Inl (JsError ''Bot not found''),
         s\<lparr>trace := trace s @
            [(ConsoleError ''Error sending admin message:'' (Some (JsError ''Bot not found'')), True)]\<rparr>)) \<and>
   (getBotInfo s botId = Some info \<and> sanitizeInput env (Some msg) = Inr v \<and> faults env (tick s) = None \<longrightarrow>
      sendAdminMessage env botId ownerId msg s =
        (Inr True,
         s\<lparr>tick := Suc (tick s),
           trace := trace s @
            [(SendMessage (bi_instance info) ownerId (admin_header @ template v) None, True)]\<rparr>))"
  by (simp add: sendAdminMessage_def io_defs)

lemma info_A: "getBotInfo registered_A ''A'' =
    Some (make_botInfo 0 ''A'' ''tokA'' ''@channel'' tree_docs ''approved'' None (Suc (Suc 0)))"
  by (simp add: getBotInfo_def registered_A_eq make_botInfo_def)

theorem sendAdminMessage_sanitizes_witness:
  "getBotInfo new_BotManager ''A'' = None \<and>
   fst (sendAdminMessage env_ok ''A'' 7 ''hello'' new_BotManager) = Inl (JsError ''Bot not found'') \<and>
   getBotInfo registered_A ''A'' =
     Some (make_botInfo 0 ''A'' ''tokA'' ''@channel'' tree_docs ''approved'' None (Suc (Suc 0))) \<and>
   sanitizeInput env_ok (Some ''hello'') = Inr (Some ''hello'') \<and>
   faults env_ok (tick registered_A) = None \<and>
   new_trace registered_A (snd (sendAdminMessage env_ok ''A'' 7 ''hello'' registered_A)) =
     [(SendMessage 0 7 (admin_header @ ''hello'') None, True)]"
proof -
  have absent: "getBotInfo new_BotManager ''A'' = None"
    by (simp add: getBotInfo_def new_BotManager_def)
  have clean: "sanitizeInput env_ok (Some ''hello'') = Inr (Some ''hello'')"
    and ok: "faults env_ok (tick registered_A) = None"
    by (simp_all add: env_ok_def)
  show ?thesis
    using absent clean ok info_A
      sendAdminMessage_sanitizes [of new_BotManager "''A''" env_ok 7 "''hello''"]
      sendAdminMessage_sanitizes [of registered_A "''A''" env_ok 7 "''hello''"
        "make_botInfo 0 ''A'' ''tokA'' ''@channel'' tree_docs ''approved'' None (Suc (Suc 0))" "Some ''hello''"]
    by (simp add: new_trace_def template_def make_botInfo_def)
qed

text \<open>
  Claim C7 as stated fails where the sanitizer changes the text: with a sanitizer that
  removes angle brackets the message delivered for \<open><b>hello</b>\<close> is the header followed
  by \<open>bhello/b\<close>, and the text as passed in is not sent.
\<close>

theorem admin_text_not_delivered_as_passed:
  "new_trace registered_A (snd (sendAdminMessage env_strict ''A'' 7 ''<b>hello</b>'' registered_A)) =
     [(SendMessage 0 7 (admin_header @ ''bhello/b'') None, True)] \<and>
   (SendMessage 0 7 ''<b>hello</b>'' None, True)
     \<notin> set (trace (snd (sendAdminMessage env_strict ''A'' 7 ''<b>hello</b>'' registered_A)))"
  by (simp add: sendAdminMessage_def io_defs info_A env_strict_def env_ok_def new_trace_def
      template_def make_botInfo_def)
     (simp add: registered_A_eq new_BotManager_def)

section \<open>The error log of a runtime\<close>

lemma health_check_success:
  assumes "faults env (tick s) = None"
  shows "health_check env botId r s =
    (Inr (), s\<lparr>tick := Suc (tick s),
       trace := trace s @ [(GetMe (bi_instance (botInfos s r)), True)],
       botInfos := (botInfos s)(r := (botInfos s r)
         \<lparr>bi_errors := [], bi_lastHealthCheck := clock env (Suc (tick s))\<rparr>)\<rparr>)"
  using assms by (simp add: health_check_def io_defs)

lemma health_check_failure:
  assumes "faults env (tick s) = Some m"
  shows "health_check env botId r s =
    (if 3 \<le> length (bi_errors (botInfos s r)) + 1
     then andThen (console_log (text_attempt_restart botId)) (\<lambda>_. restart env botId)
            (after_health_failure env botId r m s)
     else (Inr (), after_health_failure env botId r m s))"
  using assms
  by (simp add: health_check_def after_health_failure_def io_defs)

lemma on_polling_error_eq:
  "on_polling_error env c error s =
    (if 10 < length (bi_errors (botInfos s (c_botInfo c))) + 1
     then self_stop env (c_botId c) (after_polling_error env c error s)
     else (Inr (), after_polling_error env c error s))"
  by (simp add: on_polling_error_def after_polling_error_def step now_def update_botInfo_def
      deref_def ret_def)

lemma addBot_attaches:
  assumes "fst (addBot env botId token channelId metadata status ownerId s) = Inr (Some b)"
  shows "map_of (bots (snd (addBot env botId token channelId metadata status ownerId s))) botId =
           Some (next_inst s) \<and>
         listener_shares (snd (addBot env botId token channelId metadata status ownerId s)) botId \<and>
         bi_instance (botInfos (snd (addBot env botId token channelId metadata status ownerId s)) (next_inst s)) =
           next_inst s \<and>
         bi_errors (botInfos (snd (addBot env botId token channelId metadata status ownerId s)) (next_inst s)) = []"
  using assms
  by (cases "faults env (tick s)"; cases "faults env (Suc (tick s))"; cases "getAdminUserId env";
      cases "faults env (Suc (Suc (tick s)))")
     (simp_all add: addBot_def new_TelegramBot_def setupBotHandlers_def io_defs listener_shares_def
        make_botInfo_def update_conv')

lemma listener_sharesD:
  assumes "listener_shares s botId" and "map_of (bots s) botId = Some r"
  obtains c where "handlers s (bi_instance (botInfos s r)) = Some c" and "c_botInfo c = r"
    and "c_botId c = botId"
  using assms by (auto simp add: listener_shares_def split: option.splits)

lemma self_stop_bots: "bots (snd (self_stop env botId s)) = AList.delete botId (bots s)"
proof (cases "map_of (bots s) botId")
  case None
  then have "botId \<notin> fst ` set (bots s)"
    by (simp add: map_of_eq_None_iff)
  with None show ?thesis
    by (cases "faults env (tick s)") (simp_all add: self_stop_def stopBot_def io_defs)
next
  case (Some r)
  then show ?thesis
    by (cases "faults env (tick s)"; cases "faults env (Suc (tick s))")
       (simp_all add: self_stop_def stopBot_def io_defs)
qed

lemma emit_polling_error_eq:
  assumes "listener_shares s botId" and "map_of (bots s) botId = Some r"
  shows "emit_polling_error env (bi_instance (botInfos s r)) error s =
    (if 10 < length (bi_errors (botInfos s r)) + 1
     then self_stop env botId
       (s\<lparr>trace := trace s @ [(ConsoleError (text_polling_error botId) (Some error), True)],
          botInfos := (botInfos s)(r := (botInfos s r)
            \<lparr>bi_errors := bi_errors (botInfos s r) @
               [ErrorEntry (clock env (tick s)) (message error) ''polling'']\<rparr>)\<rparr>)
     else (Inr (),
       s\<lparr>trace := trace s @ [(ConsoleError (text_polling_error botId) (Some error), True)],
          botInfos := (botInfos s)(r := (botInfos s r)
            \<lparr>bi_errors := bi_errors (botInfos s r) @
               [ErrorEntry (clock env (tick s)) (message error) ''polling'']\<rparr>)\<rparr>))"
proof -
  from assms obtain c where c: "handlers s (bi_instance (botInfos s r)) = Some c"
    "c_botInfo c = r" "c_botId c = botId"
    by (rule listener_sharesD)
  then show ?thesis
    by (simp add: emit_polling_error_def andThen_gets on_polling_error_eq after_polling_error_def)
qed

text \<open>
  Claim C9.  The list \<open>errors\<close> of a runtime is one list of one object, which the
  \<open>polling_error\<close> listener and the monitor both hold.  An \<open>addBot\<close> that succeeds registers
  the new object, with the empty list, and attaches to its instance a listener that closes
  over that object.  Where that holds for an identifier, a polling error emitted on the
  instance appends an entry \<open>polling\<close> to the list of the registered object, and stops the
  runtime as soon as the list, with the new entry, has more than 10 entries; the monitor's
  health check of the registered object empties that same list when it succeeds,
  whatever it held, and when it fails appends an entry \<open>health_check\<close> to it and enters
  the restart as soon as the list, with the new entry, has 3 entries of any kind.
\<close>

theorem error_log_is_shared:
  "(fst (addBot env botId token channelId metadata status ownerId s0) = Inr (Some botId) \<longrightarrow>
      map_of (bots (snd (addBot env botId token channelId metadata status ownerId s0))) botId =
        Some (next_inst s0) \<and>
      listener_shares (snd (addBot env botId token channelId metadata status ownerId s0)) botId \<and>
      bi_errors (botInfos (snd (addBot env botId token channelId metadata status ownerId s0)) (next_inst s0)) = []) \<and>
   (listener_shares s botId \<and> map_of (bots s) botId = Some r \<longrightarrow>
      (length (bi_errors (botInfos s r)) < 10 \<longrightarrow>
         fst (emit_polling_error env (bi_instance (botInfos s r)) error s) = Inr () \<and>
         bots (snd (emit_polling_error env (bi_instance (botInfos s r)) error s)) = bots s \<and>
         listener_shares (snd (emit_polling_error env (bi_instance (botInfos s r)) error s)) botId \<and>
         bi_errors (botInfos (snd (emit_polling_error env (bi_instance (botInfos s r)) error s)) r) =
           bi_errors (botInfos s r) @ [ErrorEntry (clock env (tick s)) (message error) ''polling'']) \<and>
      (10 \<le> length (bi_errors (botInfos s r)) \<longrightarrow>
         map_of (bots (snd (emit_polling_error env (bi_instance (botInfos s r)) error s))) botId = None) \<and>
      (faults env (tick s) = None \<longrightarrow>
         fst (health_check env botId r s) = Inr () \<and>
         bots (snd (health_check env botId r s)) = bots s \<and>
         listener_shares (snd (health_check env botId r s)) botId \<and>
         bi_errors (botInfos (snd (health_check env botId r s)) r) = []) \<and>
      (faults env (tick s) = Some m \<longrightarrow>
         bi_errors (botInfos (after_health_failure env botId r m s) r) =
           bi_errors (botInfos s r) @ [ErrorEntry (clock env (Suc (tick s))) m ''health_check''] \<and>
         listener_shares (after_health_failure env botId r m s) botId \<and>
         health_check env botId r s =
           (if 3 \<le> length (bi_errors (botInfos s r)) + 1
            then andThen (console_log (text_attempt_restart botId)) (\<lambda>_. restart env botId)
                   (after_health_failure env botId r m s)
            else (Inr (), after_health_failure env botId r m s))))"
proof -
  have added: "map_of (bots (snd (addBot env botId token channelId metadata status ownerId s0))) botId =
        Some (next_inst s0) \<and>
      listener_shares (snd (addBot env botId token channelId metadata status ownerId s0)) botId \<and>
      bi_errors (botInfos (snd (addBot env botId token channelId metadata status ownerId s0)) (next_inst s0)) = []"
    if "fst (addBot env botId token channelId metadata status ownerId s0) = Inr (Some botId)"
    using addBot_attaches [OF that] by simp
  have rest: "(length (bi_errors (botInfos s r)) < 10 \<longrightarrow>
         fst (emit_polling_error env (bi_instance (botInfos s r)) error s) = Inr () \<and>
         bots (snd (emit_polling_error env (bi_instance (botInfos s r)) error s)) = bots s \<and>
         listener_shares (snd (emit_polling_error env (bi_instance (botInfos s r)) error s)) botId \<and>
         bi_errors (botInfos (snd (emit_polling_error env (bi_instance (botInfos s r)) error s)) r) =
           bi_errors (botInfos s r) @ [ErrorEntry (clock env (tick s)) (message error) ''polling'']) \<and>
      (10 \<le> length (bi_errors (botInfos s r)) \<longrightarrow>
         map_of (bots (snd (emit_polling_error env (bi_instance (botInfos s r)) error s))) botId = None) \<and>
      (faults env (tick s) = None \<longrightarrow>
         fst (health_check env botId r s) = Inr () \<and>
         bots (snd (health_check env botId r s)) = bots s \<and>
         listener_shares (snd (health_check env botId r s)) botId \<and>
         bi_errors (botInfos (snd (health_check env botId r s)) r) = []) \<and>
      (faults env (tick s) = Some m \<longrightarrow>
         bi_errors (botInfos (after_health_failure env botId r m s) r) =
           bi_errors (botInfos s r) @ [ErrorEntry (clock env (Suc (tick s))) m ''health_check''] \<and>
         listener_shares (after_health_failure env botId r m s) botId \<and>
         health_check env botId r s =
           (if 3 \<le> length (bi_errors (botInfos s r)) + 1
            then andThen (console_log (text_attempt_restart botId)) (\<lambda>_. restart env botId)
                   (after_health_failure env botId r m s)
            else (Inr (), after_health_failure env botId r m s)))"
    if sh: "listener_shares s botId" and reg: "map_of (bots s) botId = Some r"
  proof -
    have keep: "listener_shares (s\<lparr>tick := t, trace := tr,
        botInfos := (botInfos s)(r := (botInfos s r)\<lparr>bi_errors := es, bi_lastHealthCheck := h\<rparr>)\<rparr>) botId"
      "listener_shares (s\<lparr>tick := t, trace := tr,
        botInfos := (botInfos s)(r := (botInfos s r)\<lparr>bi_errors := es\<rparr>)\<rparr>) botId"
      "listener_shares (s\<lparr>trace := tr,
        botInfos := (botInfos s)(r := (botInfos s r)\<lparr>bi_errors := es\<rparr>)\<rparr>) botId"
      for t tr es h
      using sh reg by (simp_all add: listener_shares_def split: option.splits)
    have polling: "length (bi_errors (botInfos s r)) < 10 \<longrightarrow>
         fst (emit_polling_error env (bi_instance (botInfos s r)) error s) = Inr () \<and>
         bots (snd (emit_polling_error env (bi_instance (botInfos s r)) error s)) = bots s \<and>
         listener_shares (snd (emit_polling_error env (bi_instance (botInfos s r)) error s)) botId \<and>
         bi_errors (botInfos (snd (emit_polling_error env (bi_instance (botInfos s r)) error s)) r) =
           bi_errors (botInfos s r) @ [ErrorEntry (clock env (tick s)) (message error) ''polling'']"
      by (simp add: emit_polling_error_eq [OF sh reg] keep)
    have stop: "10 \<le> length (bi_errors (botInfos s r)) \<longrightarrow>
         map_of (bots (snd (emit_polling_error env (bi_instance (botInfos s r)) error s))) botId = None"
      by (simp add: emit_polling_error_eq [OF sh reg] self_stop_bots delete_conv')
    have success: "faults env (tick s) = None \<longrightarrow>
         fst (health_check env botId r s) = Inr () \<and>
         bots (snd (health_check env botId r s)) = bots s \<and>
         listener_shares (snd (health_check env botId r s)) botId \<and>
         bi_errors (botInfos (snd (health_check env botId r s)) r) = []"
      by (simp add: health_check_success keep)
    have failure: "faults env (tick s) = Some m \<longrightarrow>
         bi_errors (botInfos (after_health_failure env botId r m s) r) =
           bi_errors (botInfos s r) @ [ErrorEntry (clock env (Suc (tick s))) m ''health_check''] \<and>
         listener_shares (after_health_failure env botId r m s) botId \<and>
         health_check env botId r s =
           (if 3 \<le> length (bi_errors (botInfos s r)) + 1
            then andThen (console_log (text_attempt_restart botId)) (\<lambda>_. restart env botId)
                   (after_health_failure env botId r m s)
            else (Inr (), after_health_failure env botId r m s))"
      using health_check_failure [of env s m botId r]
      by (simp add: after_health_failure_def keep)
    from polling stop success failure show ?thesis by blast
  qed
  from added rest show ?thesis by blast
qed

lemma two_polling_errors_eq:
  "two_polling_errors =
     registered_A\<lparr>
       trace := trace registered_A @
         [(ConsoleError (text_polling_error ''A'') (Some (JsError ''ETIMEDOUT'')), True),
          (ConsoleError (text_polling_error ''A'') (Some (JsError ''ETIMEDOUT'')), True)],
       botInfos := (botInfos registered_A)(0 := (botInfos registered_A 0)
         \<lparr>bi_errors := [ErrorEntry (Suc (Suc 0)) ''ETIMEDOUT'' ''polling'',
                         ErrorEntry (Suc (Suc 0)) ''ETIMEDOUT'' ''polling'']\<rparr>)\<rparr>"
  by (simp add: two_polling_errors_def emit_polling_error_def andThen_gets)
     (simp add: registered_A_eq on_polling_error_eq after_polling_error_def closure_A_def env_ok_def
        new_BotManager_def)

theorem error_log_is_shared_witness:
  "fst (addBot env_ok ''A'' ''tokA'' ''@channel'' tree_docs ''approved'' None new_BotManager) = Inr (Some ''A'') \<and>
   map_of (bots registered_A) ''A'' = Some 0 \<and>
   listener_shares registered_A ''A'' \<and>
   map err_type (bi_errors (botInfos
     (snd (emit_polling_error env_ok 0 (JsError ''ETIMEDOUT'') registered_A)) 0)) = [''polling''] \<and>
   listener_shares two_polling_errors ''A'' \<and>
   map_of (bots two_polling_errors) ''A'' = Some 0 \<and>
   map err_type (bi_errors (botInfos two_polling_errors 0)) = [''polling'', ''polling''] \<and>
   faults env_ok (tick two_polling_errors) = None \<and>
   bi_errors (botInfos (snd (health_check env_ok ''A'' 0 two_polling_errors)) 0) = [] \<and>
   faults (env_failing 2) (tick two_polling_errors) = Some ''ETELEGRAM: 401 Unauthorized'' \<and>
   bots (snd (health_check (env_failing 2) ''A'' 0 two_polling_errors)) = []"
proof -
  have added: "fst (addBot env_ok ''A'' ''tokA'' ''@channel'' tree_docs ''approved'' None new_BotManager) =
      Inr (Some ''A'')"
    by (simp add: addBot_def new_TelegramBot_def setupBotHandlers_def io_defs env_ok_def)
  have first: "next_inst new_BotManager = 0"
    by (simp add: new_BotManager_def)
  have registered: "map_of (bots registered_A) ''A'' = Some 0" "listener_shares registered_A ''A''"
    using added first
      error_log_is_shared [where env = env_ok and botId = "''A''" and token = "''tokA''"
        and channelId = "''@channel''" and metadata = tree_docs and status = "''approved''"
        and ownerId = None and ?s0.0 = new_BotManager]
    by (simp_all add: registered_A_def)
  have fresh: "bi_instance (botInfos registered_A 0) = 0" "bi_errors (botInfos registered_A 0) = []"
    by (simp_all add: registered_A_eq)
  have one: "map err_type (bi_errors (botInfos
      (snd (emit_polling_error env_ok 0 (JsError ''ETIMEDOUT'') registered_A)) 0)) = [''polling'']"
    using registered fresh
      error_log_is_shared [where env = env_ok and s = registered_A and botId = "''A''" and r = 0
        and error = "JsError ''ETIMEDOUT''"]
    by simp
  have two: "map err_type (bi_errors (botInfos two_polling_errors 0)) = [''polling'', ''polling'']"
    "length (bi_errors (botInfos two_polling_errors 0)) = 2"
    "map_of (bots two_polling_errors) ''A'' = Some 0"
    "listener_shares two_polling_errors ''A''"
    by (simp_all add: two_polling_errors_eq registered_A_eq listener_shares_def closure_A_def)
  have ok: "faults env_ok (tick two_polling_errors) = None"
    by (simp add: env_ok_def)
  have fails: "faults (env_failing 2) (tick two_polling_errors) = Some ''ETELEGRAM: 401 Unauthorized''"
    by (simp add: two_polling_errors_eq registered_A_eq env_failing_def env_ok_def)
  have cleared: "bi_errors (botInfos (snd (health_check env_ok ''A'' 0 two_polling_errors)) 0) = []"
    using ok two
      error_log_is_shared [where env = env_ok and s = two_polling_errors and botId = "''A''" and r = 0]
    by simp
  have "health_check (env_failing 2) ''A'' 0 two_polling_errors =
      andThen (console_log (text_attempt_restart ''A'')) (\<lambda>_. restart (env_failing 2) ''A'')
        (after_health_failure (env_failing 2) ''A'' 0 ''ETELEGRAM: 401 Unauthorized'' two_polling_errors)"
    using two fails
      error_log_is_shared [where env = "env_failing 2" and s = two_polling_errors
        and m = "''ETELEGRAM: 401 Unauthorized''" and botId = "''A''" and r = 0]
    by simp
  then have "bots (snd (health_check (env_failing 2) ''A'' 0 two_polling_errors)) = []"
    by (simp add: after_health_failure_def restart_def storage_getBotById_def stopBot_def io_defs
        two_polling_errors_eq registered_A_eq env_failing_def env_ok_def new_BotManager_def)
  with added registered one two ok fails cleared show ?thesis
    by simp
qed

section \<open>Owner registration\<close>

lemma registers: "js_includes (toLowerCase ''Register'') ''register''"
  by (simp add: toLowerCase_def lower_char_def)

lemma on_message_register:
  assumes "handlers s 0 = Some closure_A"
  shows "deliver env_ok 0 (register_from userId) s =
    (Inr (), s\<lparr>tick := Suc (Suc (Suc (tick s))),
       trace := trace s @
         [(RegisterBotOwner ''A'' userId, True),
          (SendMessage 0 userId registration_ok None, True),
          (SendAlert ''registration'' (text_owner_registered ''A'' userId), True)],
       botInfos := (botInfos s)(0 := (botInfos s 0)\<lparr>bi_ownerId := Some userId\<rparr>)\<rparr>)"
  using assms registers
  by (simp add: deliver_def handle_event_def register_from_def on_message_def on_message_body_def
      io_defs env_ok_def closure_A_def no_owner_def)

text \<open>
  Claim C4 does not hold of the code.  The message listener tests the \<open>ownerId\<close> that was
  destructured when the listeners were set up, and writes the new owner into the
  \<open>botInfo\<close> object only; so on a runtime added without an owner the first registration
  binds user 7, and a second registration, from user 8, binds user 8.
\<close>

theorem second_register_rebinds_owner:
  "map_option bi_ownerId (getBotInfo registered_A ''A'') = Some None \<and>
   map_option bi_ownerId
     (getBotInfo (snd (stream_driver env_ok [(0, register_from 7)] registered_A)) ''A'') = Some (Some 7) \<and>
   map_option bi_ownerId
     (getBotInfo (snd (stream_driver env_ok [(0, register_from 7), (0, register_from 8)] registered_A)) ''A'')
     = Some (Some 8)"
proof -
  have h: "handlers registered_A 0 = Some closure_A"
    by (simp add: registered_A_eq)
  show ?thesis
    by (simp add: on_message_register h andThen_def ret_def getBotInfo_def)
       (simp add: registered_A_eq)
qed

section \<open>Callbacks with an unknown action\<close>

text \<open>
  Claim C6 does not hold of the code.  For a payload that passes the sanitizer and the
  status checks and whose action is none of \<open>folder\<close>, \<open>main\<close> and \<open>page\<close>, the listener
  of the runtime returns with the state as it was: nothing is rendered, nothing is
  thrown, and no \<open>answerCallbackQuery\<close> is made either.
\<close>

theorem unknown_action_gets_no_answer:
  "deliver env_ok 0 (CallbackQuery unknown_action_query) registered_A = (Inr (), registered_A)"
proof -
  have listener: "handlers registered_A 0 = Some closure_A"
    by (simp add: registered_A_eq)
  have "on_callback_query env_ok closure_A unknown_action_query registered_A = (Inr (), registered_A)"
    by (simp add: on_callback_query_def on_callback_query_body_def dispatch_action_def
        unknown_action_query_def io_defs env_ok_def closure_A_def)
  with listener show ?thesis
    by (simp add: deliver_def handle_event_def step)
qed

end
